theory Spec2Isabelle
  imports Main "HOL-Library.Monad_Syntax"
begin

section \<open>Credential store (githubOAuth.ts, tokenStore.ts)\<close>

text \<open>
  Timestamps are the millisecond counts of \<^verbatim>\<open>Date.now()\<close>. They are integers far
  below \<open>2^53\<close>, where the arithmetic of JavaScript numbers is exact, so they
  are modelled as \<open>int\<close>. The clock is read once per call and is passed as the
  argument \<open>now\<close>.
\<close>

record GitHubTokenInfo =
  access_token :: string
  token_type :: string
  scope :: string
  obtained_at :: int

text \<open>The process-wide \<^verbatim>\<open>Map<string, GitHubTokenInfo>\<close>.\<close>

type_synonym tokenStore = "string \<rightharpoonup> GitHubTokenInfo"

definition isTokenValid :: "int \<Rightarrow> GitHubTokenInfo \<Rightarrow> bool" where
  "isTokenValid now tokenInfo =
     (let thirtyDaysAgo = now - 30 * 24 * 60 * 60 * 1000
      in obtained_at tokenInfo > thirtyDaysAgo)"

text \<open>
  \<^verbatim>\<open>tokenStore.get(userId) || null\<close>: a stored record is an object, hence truthy, so
  the result is the record when there is one and \<^verbatim>\<open>null\<close> (here \<open>None\<close>) otherwise.
\<close>

definition getStoredToken :: "tokenStore \<Rightarrow> string \<Rightarrow> GitHubTokenInfo option" where
  "getStoredToken store userId = store userId"

definition storeToken :: "tokenStore \<Rightarrow> string \<Rightarrow> GitHubTokenInfo \<Rightarrow> tokenStore" where
  "storeToken store userId tokenInfo = store(userId \<mapsto> tokenInfo)"

definition removeToken :: "tokenStore \<Rightarrow> string \<Rightarrow> tokenStore" where
  "removeToken store userId = store(userId := None)"

definition hasValidToken :: "tokenStore \<Rightarrow> int \<Rightarrow> string \<Rightarrow> bool" where
  "hasValidToken store now userId =
     (case getStoredToken store userId of
        None \<Rightarrow> False
      | Some tokenInfo \<Rightarrow>
          (let thirtyDaysAgo = now - 30 * 24 * 60 * 60 * 1000
           in obtained_at tokenInfo > thirtyDaysAgo))"

section \<open>Strings and JSON values as the program sees them\<close>

text \<open>
  A JavaScript string is modelled as a \<open>string\<close>. Message texts and payload strings
  are taken to be ASCII, so that one \<open>char\<close> is one UTF-16 code unit and
  \<^verbatim>\<open>length\<close>, \<^verbatim>\<open>substring\<close> and \<^verbatim>\<open>includes\<close> count the same positions as the program.
  The symbols of the output templates that lie outside ASCII are written as their
  UTF-8 bytes.
\<close>

definition sym_link :: string where
  "sym_link = [CHR 0xF0, CHR 0x9F, CHR 0x94, CHR 0x97]"

definition sym_star :: string where
  "sym_star = [CHR 0xE2, CHR 0xAD, CHR 0x90]"

definition sym_arrow :: string where
  "sym_arrow = [CHR 0xE2, CHR 0x86, CHR 0x92]"

text \<open>\<^verbatim>\<open>Array.prototype.join\<close> on strings.\<close>

fun join :: "string \<Rightarrow> string list \<Rightarrow> string" where
  "join sep [] = []"
| "join sep [x] = x"
| "join sep (x # y # ys) = x @ sep @ join sep (y # ys)"

text \<open>\<^verbatim>\<open>String.prototype.includes\<close>: \<open>includes_str s p\<close> is \<^verbatim>\<open>s.includes(p)\<close>.\<close>

definition startsWith :: "string \<Rightarrow> string \<Rightarrow> bool" where
  "startsWith s p = (take (length p) s = p)"

fun includes_str :: "string \<Rightarrow> string \<Rightarrow> bool" where
  "includes_str [] p = (p = [])"
| "includes_str (c # cs) p = (startsWith (c # cs) p \<or> includes_str cs p)"

text \<open>
  Decimal rendering of a number, as template interpolation and \<^verbatim>\<open>String\<close> do it.
  Numbers are modelled as integers (identifiers, counts and indices); the model
  covers the range below \<open>10^21\<close>, where JavaScript prints plain digits.
\<close>

fun showNat :: "nat \<Rightarrow> string" where
  "showNat n = (if n < 10 then [''0123456789'' ! n]
                else showNat (n div 10) @ [''0123456789'' ! (n mod 10)])"

declare showNat.simps [simp del]

definition showInt :: "int \<Rightarrow> string" where
  "showInt i = (if i < 0 then CHR ''-'' # showNat (nat (- i)) else showNat (nat i))"

text \<open>
  A tool result is a JSON tree (it arrives as the body of a JSON-RPC response), plus
  \<^verbatim>\<open>undefined\<close>, which property reads produce. An object is the list of its own
  properties in the order of \<^verbatim>\<open>Object.entries\<close>, with distinct keys. Such values hold
  no functions, cycles or getters.
\<close>

datatype json =
    JUndefined
  | JNull
  | JBool bool
  | JNum int
  | JStr string
  | JArr "json list"
  | JObj "(string \<times> json) list"

text \<open>The parts of the platform that the code calls and that are not modelled here.\<close>

record platform =
  toLocaleDateString :: "json \<Rightarrow> string"
    \<comment> \<open>\<^verbatim>\<open>new Date(v).toLocaleDateString()\<close> for a primitive \<open>v\<close>; it depends on the locale\<close>
  JSON_stringify :: "json \<Rightarrow> string"
    \<comment> \<open>the text of \<^verbatim>\<open>JSON.stringify(v)\<close>; \<^verbatim>\<open>undefined\<close> where it yields \<^verbatim>\<open>undefined\<close>\<close>
  JSON_stringify2 :: "json \<Rightarrow> string"
    \<comment> \<open>the same for \<^verbatim>\<open>JSON.stringify(v, null, 2)\<close>\<close>
  stringAbove :: "string \<Rightarrow> int \<Rightarrow> bool"
    \<comment> \<open>\<open>stringAbove s k\<close>: the number that the string \<open>s\<close> converts to is above \<open>k\<close>\<close>
  typeErrorMessage :: string
    \<comment> \<open>the message of the engine's \<^verbatim>\<open>TypeError\<close>\<close>

definition truthy :: "json \<Rightarrow> bool" where
  "truthy v = (case v of
      JUndefined \<Rightarrow> False
    | JNull \<Rightarrow> False
    | JBool b \<Rightarrow> b
    | JNum n \<Rightarrow> n \<noteq> 0
    | JStr s \<Rightarrow> s \<noteq> []
    | JArr xs \<Rightarrow> True
    | JObj kvs \<Rightarrow> True)"

definition nullish :: "json \<Rightarrow> bool" where
  "nullish v = (v = JUndefined \<or> v = JNull)"

definition isArray :: "json \<Rightarrow> bool" where
  "isArray v = (case v of JArr xs \<Rightarrow> True | _ \<Rightarrow> False)"

text \<open>The elements of an array.\<close>

definition elems :: "json \<Rightarrow> json list" where
  "elems v = (case v of JArr xs \<Rightarrow> xs | _ \<Rightarrow> [])"

definition typeof :: "json \<Rightarrow> string" where
  "typeof v = (case v of
      JUndefined \<Rightarrow> ''undefined''
    | JNull \<Rightarrow> ''object''
    | JBool b \<Rightarrow> ''boolean''
    | JNum n \<Rightarrow> ''number''
    | JStr s \<Rightarrow> ''string''
    | JArr xs \<Rightarrow> ''object''
    | JObj kvs \<Rightarrow> ''object'')"

text \<open>
  \<open>propOf v k\<close> reads the property \<open>k\<close> of a value that is neither \<^verbatim>\<open>null\<close> nor
  \<^verbatim>\<open>undefined\<close>. The code reads data fields only (\<^verbatim>\<open>number\<close>, \<^verbatim>\<open>title\<close>, \<^verbatim>\<open>user\<close>, ...)
  and \<^verbatim>\<open>length\<close>; none of the data field names is a property of the prototypes of
  objects, arrays, strings, numbers or booleans. On \<^verbatim>\<open>null\<close> and \<^verbatim>\<open>undefined\<close> the
  value of \<open>propOf\<close> is \<^verbatim>\<open>undefined\<close>, which is what optional chaining \<^verbatim>\<open>v?.k\<close> gives;
  a plain read \<^verbatim>\<open>v.k\<close> throws there, and is \<open>getProp\<close>.
\<close>

definition propOf :: "json \<Rightarrow> string \<Rightarrow> json" where
  "propOf v k = (case v of
      JObj kvs \<Rightarrow> (case map_of kvs k of Some x \<Rightarrow> x | None \<Rightarrow> JUndefined)
    | JArr xs \<Rightarrow> (if k = ''length'' then JNum (int (length xs)) else JUndefined)
    | JStr s \<Rightarrow> (if k = ''length'' then JNum (int (length s)) else JUndefined)
    | _ \<Rightarrow> JUndefined)"

text \<open>In the functions below \<open>None\<close> is a thrown exception (a \<^verbatim>\<open>TypeError\<close>).\<close>

definition getProp :: "json \<Rightarrow> string \<Rightarrow> json option" where
  "getProp v k = (if nullish v then None else Some (propOf v k))"

text \<open>
  \<^verbatim>\<open>String(v)\<close> and template interpolation. An array joins its elements with commas,
  \<^verbatim>\<open>null\<close> and \<^verbatim>\<open>undefined\<close> elements as the empty string. An object is
  \<^verbatim>\<open>[object Object]\<close>, unless it has a property of its own named \<^verbatim>\<open>toString\<close>: that
  one hides \<^verbatim>\<open>Object.prototype.toString\<close>, is not callable, and the conversion throws.
\<close>

fun toStr :: "json \<Rightarrow> string option"
  and joinElems :: "json list \<Rightarrow> string option" where
  "toStr JUndefined = Some ''undefined''"
| "toStr JNull = Some ''null''"
| "toStr (JBool b) = Some (if b then ''true'' else ''false'')"
| "toStr (JNum n) = Some (showInt n)"
| "toStr (JStr s) = Some s"
| "toStr (JArr xs) = joinElems xs"
| "toStr (JObj kvs) =
     (if ''toString'' \<in> set (map fst kvs) then None else Some ''[object Object]'')"
| "joinElems [] = Some []"
| "joinElems [x] = (if x = JUndefined \<or> x = JNull then Some [] else toStr x)"
| "joinElems (x # y # ys) =
     do { a \<leftarrow> (if x = JUndefined \<or> x = JNull then Some [] else toStr x);
          b \<leftarrow> joinElems (y # ys);
          Some (a @ '','' @ b) }"

text \<open>
  \<^verbatim>\<open>Array.prototype.join\<close> on arbitrary elements: each element is converted as above.
\<close>

fun joinValues :: "string \<Rightarrow> json list \<Rightarrow> string option" where
  "joinValues sep [] = Some []"
| "joinValues sep [x] = (if nullish x then Some [] else toStr x)"
| "joinValues sep (x # y # ys) =
     do { a \<leftarrow> (if nullish x then Some [] else toStr x);
          b \<leftarrow> joinValues sep (y # ys);
          Some (a @ sep @ b) }"

text \<open>
  The conversion to a primitive that \<^verbatim>\<open>new Date(v)\<close> and \<^verbatim>\<open>v > k\<close> start with: an
  array or object becomes its string.
\<close>

definition toPrimitive :: "json \<Rightarrow> json option" where
  "toPrimitive v = (case v of
      JArr xs \<Rightarrow> map_option JStr (toStr v)
    | JObj kvs \<Rightarrow> map_option JStr (toStr v)
    | _ \<Rightarrow> Some v)"

text \<open>\<^verbatim>\<open>new Date(v).toLocaleDateString()\<close>.\<close>

definition localeDate :: "platform \<Rightarrow> json \<Rightarrow> string option" where
  "localeDate P v = map_option (toLocaleDateString P) (toPrimitive v)"

text \<open>\<open>above P v k\<close> is the comparison \<^verbatim>\<open>v > k\<close> with a number \<open>k\<close>.\<close>

definition above :: "platform \<Rightarrow> json \<Rightarrow> int \<Rightarrow> bool option" where
  "above P v k =
     do { p \<leftarrow> toPrimitive v;
          Some (case p of
              JNum n \<Rightarrow> n > k
            | JBool b \<Rightarrow> (if b then 1 else 0) > k
            | JNull \<Rightarrow> 0 > k
            | JStr s \<Rightarrow> stringAbove P s k
            | _ \<Rightarrow> False) }"

text \<open>\<open>part c s\<close> is the text that a statement \<^verbatim>\<open>if (c) formatted += s\<close> appends.\<close>

definition part :: "bool \<Rightarrow> string option \<Rightarrow> string option" where
  "part c s = (if c then s else Some [])"

text \<open>\<open>mapM f xs\<close> is \<^verbatim>\<open>xs.map(f)\<close> where \<open>f\<close> may throw.\<close>

fun mapM :: "('a \<Rightarrow> 'b option) \<Rightarrow> 'a list \<Rightarrow> 'b list option" where
  "mapM f [] = Some []"
| "mapM f (x # xs) = do { y \<leftarrow> f x; ys \<leftarrow> mapM f xs; Some (y # ys) }"

section \<open>Result formatter of the service (githubMcpService.ts)\<close>

text \<open>\<^verbatim>\<open>Object.entries\<close> of an object or an array.\<close>

definition entries :: "json \<Rightarrow> (string \<times> json) list" where
  "entries v = (case v of
      JObj kvs \<Rightarrow> kvs
    | JArr xs \<Rightarrow> zip (map showNat [0..<length xs]) xs
    | _ \<Rightarrow> [])"

text \<open>The three templates of \<^verbatim>\<open>formatSingleItem\<close> and its fallback, branch by branch.\<close>

definition issueFormat :: "platform \<Rightarrow> json \<Rightarrow> string option" where
  "issueFormat P item =
     do { number \<leftarrow> toStr (propOf item ''number'');
          title \<leftarrow> toStr (propOf item ''title'');
          state \<leftarrow> part (truthy (propOf item ''state''))
            (do { s \<leftarrow> toStr (propOf item ''state''); Some (''Status: '' @ s @ ''\<newline>'') });
          author \<leftarrow> part (truthy (propOf (propOf item ''user'') ''login''))
            (do { s \<leftarrow> toStr (propOf (propOf item ''user'') ''login'');
                  Some (''Author: '' @ s @ ''\<newline>'') });
          created \<leftarrow> part (truthy (propOf item ''created_at''))
            (do { d \<leftarrow> localeDate P (propOf item ''created_at'');
                  Some (''Created: '' @ d @ ''\<newline>'') });
          body \<leftarrow> part (truthy (propOf item ''body''))
            (do { long \<leftarrow> above P (propOf (propOf item ''body'') ''length'') 200;
                  preview \<leftarrow> (if long
                     then (case propOf item ''body'' of
                             JStr s \<Rightarrow> Some (take 200 s @ ''...'')
                           | _ \<Rightarrow> None)
                     else toStr (propOf item ''body''));
                  Some (''\<newline>Description:\<newline>'' @ preview) });
          link \<leftarrow> part (truthy (propOf item ''html_url''))
            (do { u \<leftarrow> toStr (propOf item ''html_url'');
                  Some (''\<newline>\<newline>'' @ sym_link @ '' [View on GitHub]('' @ u @ '')'') });
          Some (''**#'' @ number @ '': '' @ title @ ''**\<newline>''
                @ state @ author @ created @ body @ link) }"

definition repoFormat :: "platform \<Rightarrow> json \<Rightarrow> string option" where
  "repoFormat P item =
     do { full_name \<leftarrow> toStr (propOf item ''full_name'');
          description \<leftarrow> part (truthy (propOf item ''description''))
            (do { s \<leftarrow> toStr (propOf item ''description''); Some (s @ ''\<newline>'') });
          language \<leftarrow> part (truthy (propOf item ''language''))
            (do { s \<leftarrow> toStr (propOf item ''language'');
                  Some (''Language: '' @ s @ ''\<newline>'') });
          stars \<leftarrow> part (propOf item ''stargazers_count'' \<noteq> JUndefined)
            (do { s \<leftarrow> toStr (propOf item ''stargazers_count'');
                  Some (sym_star @ '' '' @ s @ '' stars\<newline>'') });
          link \<leftarrow> part (truthy (propOf item ''html_url''))
            (do { u \<leftarrow> toStr (propOf item ''html_url'');
                  Some (sym_link @ '' [View on GitHub]('' @ u @ '')'') });
          Some (''**'' @ full_name @ ''**\<newline>'' @ description @ language @ stars @ link) }"

definition pullRequestFormat :: "platform \<Rightarrow> json \<Rightarrow> string option" where
  "pullRequestFormat P item =
     do { number \<leftarrow> toStr (propOf item ''number'');
          title \<leftarrow> toStr (propOf item ''title'');
          state \<leftarrow> part (truthy (propOf item ''state''))
            (do { s \<leftarrow> toStr (propOf item ''state''); Some (''Status: '' @ s @ ''\<newline>'') });
          author \<leftarrow> part (truthy (propOf (propOf item ''user'') ''login''))
            (do { s \<leftarrow> toStr (propOf (propOf item ''user'') ''login'');
                  Some (''Author: '' @ s @ ''\<newline>'') });
          branches \<leftarrow> part (truthy (propOf (propOf item ''head'') ''ref'')
                            \<and> truthy (propOf (propOf item ''base'') ''ref''))
            (do { h \<leftarrow> toStr (propOf (propOf item ''head'') ''ref'');
                  b \<leftarrow> toStr (propOf (propOf item ''base'') ''ref'');
                  Some (h @ '' '' @ sym_arrow @ '' '' @ b @ ''\<newline>'') });
          created \<leftarrow> part (truthy (propOf item ''created_at''))
            (do { d \<leftarrow> localeDate P (propOf item ''created_at'');
                  Some (''Created: '' @ d @ ''\<newline>'') });
          link \<leftarrow> part (truthy (propOf item ''html_url''))
            (do { u \<leftarrow> toStr (propOf item ''html_url'');
                  Some (sym_link @ '' [View on GitHub]('' @ u @ '')'') });
          Some (''**PR #'' @ number @ '': '' @ title @ ''**\<newline>''
                @ state @ author @ branches @ created @ link) }"

definition keyValueFormat :: "platform \<Rightarrow> json \<Rightarrow> string option" where
  "keyValueFormat P item =
     do { lines \<leftarrow> mapM (\<lambda>(key, v). do { s \<leftarrow> toStr v; Some (key @ '': '' @ s) })
            (take 10 (filter (\<lambda>(key, v). v \<noteq> JNull \<and> v \<noteq> JUndefined \<and> v \<noteq> JStr [])
               (entries item)));
          let keyValue = join ''\<newline>'' lines;
          Some (if keyValue \<noteq> [] then keyValue else JSON_stringify2 P item) }"

definition formatSingleItem :: "platform \<Rightarrow> json \<Rightarrow> string option" where
  "formatSingleItem P item =
     (if \<not> truthy item \<or> typeof item \<noteq> ''object'' then toStr item
      else if truthy (propOf item ''number'') \<and> truthy (propOf item ''title'')
        then issueFormat P item
      else if truthy (propOf item ''name'') \<and> truthy (propOf item ''full_name'')
        then repoFormat P item
      else if truthy (propOf item ''number'') \<and> truthy (propOf item ''title'')
              \<and> truthy (propOf item ''head'')
        then pullRequestFormat P item
      else keyValueFormat P item)"

text \<open>
  \<open>formatToolResult_try\<close> is the body of the \<^verbatim>\<open>try\<close> block of \<^verbatim>\<open>formatToolResult\<close>,
  \<open>formatToolResult\<close> the method with its \<^verbatim>\<open>catch\<close>. The tool name takes no part in
  the result.
\<close>

definition contentItem :: "platform \<Rightarrow> json \<Rightarrow> json option" where
  "contentItem P item =
     do { ty \<leftarrow> getProp item ''type'';
          Some (if ty = JStr ''text'' then propOf item ''text''
                else JStr (JSON_stringify2 P item)) }"

fun numbered :: "nat \<Rightarrow> string list \<Rightarrow> string list" where
  "numbered i [] = []"
| "numbered i (s # ss) =
     (''**Item '' @ showNat (i + 1) @ '':**\<newline>'' @ s) # numbered (i + 1) ss"

definition formatToolResult_try :: "platform \<Rightarrow> string \<Rightarrow> json \<Rightarrow> string option" where
  "formatToolResult_try P toolName result =
     (if truthy (propOf result ''content'') \<and> isArray (propOf result ''content'')
      then do { items \<leftarrow> mapM (contentItem P) (elems (propOf result ''content''));
                joinValues ''\<newline>\<newline>'' items }
      else if typeof result = ''string'' then toStr result
      else if typeof result = ''object'' then
        (if isArray result then
           (if length (elems result) = 0 then Some ''No results found.''
            else if length (elems result) = 1 then formatSingleItem P (elems result ! 0)
            else do { rendered \<leftarrow> mapM (formatSingleItem P) (elems result);
                      Some (join ''\<newline>\<newline>'' (numbered 0 rendered)) })
         else formatSingleItem P result)
      else toStr result)"

definition formatToolResult :: "platform \<Rightarrow> string \<Rightarrow> json \<Rightarrow> string option" where
  "formatToolResult P toolName result =
     (case formatToolResult_try P toolName result of
        Some s \<Rightarrow> Some s
      | None \<Rightarrow> Some (''Raw result: '' @ JSON_stringify2 P result))"

section \<open>Result formatter of the parser (githubToolParser.ts)\<close>

definition sym_check :: string where
  "sym_check = [CHR 0xE2, CHR 0x9C, CHR 0x85]"

definition sym_warning :: string where
  "sym_warning = [CHR 0xE2, CHR 0x9A, CHR 0xA0, CHR 0xEF, CHR 0xB8, CHR 0x8F]"

definition sym_bullet :: string where
  "sym_bullet = [CHR 0xE2, CHR 0x80, CHR 0xA2]"

definition sym_lock :: string where
  "sym_lock = [CHR 0xF0, CHR 0x9F, CHR 0x94, CHR 0x92]"

definition sym_globe :: string where
  "sym_globe = [CHR 0xF0, CHR 0x9F, CHR 0x8C, CHR 0x8D]"

definition sym_books :: string where
  "sym_books = [CHR 0xF0, CHR 0x9F, CHR 0x93, CHR 0x9A]"

definition sym_person :: string where
  "sym_person = [CHR 0xF0, CHR 0x9F, CHR 0x91, CHR 0xA4]"

definition sym_cycle :: string where
  "sym_cycle = [CHR 0xF0, CHR 0x9F, CHR 0x94, CHR 0x84]"

definition sym_bug :: string where
  "sym_bug = [CHR 0xF0, CHR 0x9F, CHR 0x90, CHR 0x9B]"

definition sym_memo :: string where
  "sym_memo = [CHR 0xF0, CHR 0x9F, CHR 0x93, CHR 0x9D]"

definition sym_chart :: string where
  "sym_chart = [CHR 0xF0, CHR 0x9F, CHR 0x93, CHR 0x8A]"

definition sym_calendar :: string where
  "sym_calendar = [CHR 0xF0, CHR 0x9F, CHR 0x93, CHR 0x85]"

definition sym_label :: string where
  "sym_label = [CHR 0xF0, CHR 0x9F, CHR 0x8F, CHR 0xB7, CHR 0xEF, CHR 0xB8, CHR 0x8F]"

definition sym_people :: string where
  "sym_people = [CHR 0xF0, CHR 0x9F, CHR 0x91, CHR 0xA5]"

definition sym_pin :: string where
  "sym_pin = [CHR 0xF0, CHR 0x9F, CHR 0x93, CHR 0x8D]"

definition sym_tools :: string where
  "sym_tools = [CHR 0xF0, CHR 0x9F, CHR 0x9B, CHR 0xA0, CHR 0xEF, CHR 0xB8, CHR 0x8F]"

text \<open>\<open>orElse v d\<close> is the text of \<^verbatim>\<open>${v || d}\<close> for a literal \<open>d\<close>.\<close>

definition orElse :: "json \<Rightarrow> string \<Rightarrow> string option" where
  "orElse v d = (if truthy v then toStr v else Some d)"

text \<open>
  \<open>showingOf shown n limit\<close> is the text of
  \<^verbatim>\<open>${shown}${n > limit ? ' of ' + n : ''}\<close> for array lengths \<open>shown\<close> and \<open>n\<close>.
\<close>

definition showingOf :: "nat \<Rightarrow> nat \<Rightarrow> nat \<Rightarrow> string" where
  "showingOf shown n limit =
     showNat shown @ (if n > limit then '' of '' @ showNat n else [])"

text \<open>
  The arrow functions passed to \<^verbatim>\<open>map\<close>. Each starts by reading a property of its
  argument, which throws when the argument is \<^verbatim>\<open>null\<close> or \<^verbatim>\<open>undefined\<close>.
\<close>

definition repoEntry :: "json \<Rightarrow> string option" where
  "repoEntry repo =
     (if nullish repo then None
      else do { name \<leftarrow> toStr (propOf repo ''name'');
                description \<leftarrow> orElse (propOf repo ''description'') ''No description'';
                url \<leftarrow> toStr (propOf repo ''html_url'');
                Some (sym_bullet @ '' **'' @ name @ ''** ''
                      @ (if truthy (propOf repo ''private'') then sym_lock else sym_globe)
                      @ ''\<newline>  '' @ description @ ''\<newline>  '' @ url) })"

definition numberedEntry :: "platform \<Rightarrow> json \<Rightarrow> string option" where
  "numberedEntry P pr =
     (if nullish pr then None
      else do { number \<leftarrow> toStr (propOf pr ''number'');
                title \<leftarrow> toStr (propOf pr ''title'');
                login \<leftarrow> toStr (propOf (propOf pr ''user'') ''login'');
                state \<leftarrow> toStr (propOf pr ''state'');
                created \<leftarrow> localeDate P (propOf pr ''created_at'');
                url \<leftarrow> toStr (propOf pr ''html_url'');
                Some (sym_bullet @ '' **#'' @ number @ ''** '' @ title
                      @ ''\<newline>  '' @ sym_person @ '' '' @ login @ '' '' @ sym_bullet @ '' ''
                      @ state @ '' '' @ sym_bullet @ '' '' @ created
                      @ ''\<newline>  '' @ url) })"

definition formatRepoList :: "json \<Rightarrow> string option" where
  "formatRepoList result =
     (if \<not> truthy result \<or> \<not> isArray result then Some ''No repositories found.''
      else do { let repos = take 10 (elems result);
                repoList \<leftarrow> mapM repoEntry repos;
                Some (sym_books @ '' **Your Repositories** (showing ''
                      @ showingOf (length repos) (length (elems result)) 10
                      @ ''):\<newline>\<newline>'' @ join ''\<newline>\<newline>'' repoList) })"

definition formatPullRequestList :: "platform \<Rightarrow> json \<Rightarrow> string option" where
  "formatPullRequestList P result =
     (if \<not> truthy result \<or> \<not> isArray result then Some ''No pull requests found.''
      else do { let prs = take 5 (elems result);
                prList \<leftarrow> mapM (numberedEntry P) prs;
                Some (sym_cycle @ '' **Pull Requests** (showing ''
                      @ showingOf (length prs) (length (elems result)) 5
                      @ ''):\<newline>\<newline>'' @ join ''\<newline>\<newline>'' prList) })"

definition formatIssuesList :: "platform \<Rightarrow> json \<Rightarrow> string option" where
  "formatIssuesList P result =
     (if \<not> truthy result \<or> \<not> isArray result then Some ''No issues found.''
      else do { let issues = take 5 (elems result);
                issueList \<leftarrow> mapM (numberedEntry P) issues;
                Some (sym_bug @ '' **Issues** (showing ''
                      @ showingOf (length issues) (length (elems result)) 5
                      @ ''):\<newline>\<newline>'' @ join ''\<newline>\<newline>'' issueList) })"

text \<open>
  \<open>mappedNames P xs k pre post sep\<close> is the text of
  \<^verbatim>\<open>xs.map(x => `pre${x.k}post`).join(sep)\<close>, evaluated when \<^verbatim>\<open>xs && xs.length > 0\<close>:
  only an array has a \<^verbatim>\<open>map\<close> method.
\<close>

definition mappedNames ::
  "json \<Rightarrow> string \<Rightarrow> string \<Rightarrow> string \<Rightarrow> string \<Rightarrow> string option" where
  "mappedNames xs k pre post sep =
     (case xs of
        JArr ys \<Rightarrow>
          do { names \<leftarrow> mapM (\<lambda>x. if nullish x then None
                                    else do { s \<leftarrow> toStr (propOf x k); Some (pre @ s @ post) }) ys;
               Some (join sep names) }
      | _ \<Rightarrow> None)"

definition nonEmptyList :: "platform \<Rightarrow> json \<Rightarrow> bool option" where
  "nonEmptyList P xs =
     (if truthy xs then above P (propOf xs ''length'') 0 else Some False)"

definition formatSingleIssue :: "platform \<Rightarrow> json \<Rightarrow> string option" where
  "formatSingleIssue P result =
     (if \<not> truthy result then Some ''Could not retrieve issue.''
      else do {
        createdDate \<leftarrow> localeDate P (propOf result ''created_at'');
        updatedDate \<leftarrow> localeDate P (propOf result ''updated_at'');
        number \<leftarrow> toStr (propOf result ''number'');
        title \<leftarrow> toStr (propOf result ''title'');
        body \<leftarrow> orElse (propOf result ''body'') ''No description provided'';
        login \<leftarrow> toStr (propOf (propOf result ''user'') ''login'');
        state \<leftarrow> toStr (propOf result ''state'');
        hasLabels \<leftarrow> nonEmptyList P (propOf result ''labels'');
        labels \<leftarrow> part hasLabels
          (do { ls \<leftarrow> mappedNames (propOf result ''labels'') ''name'' [CHR 0x60] [CHR 0x60] '' '';
                Some (sym_label @ '' **Labels:** '' @ ls @ ''\<newline>'') });
        hasAssignees \<leftarrow> nonEmptyList P (propOf result ''assignees'');
        assignees \<leftarrow> part hasAssignees
          (do { as \<leftarrow> mappedNames (propOf result ''assignees'') ''login'' ''@'' [] '', '';
                Some (sym_people @ '' **Assignees:** '' @ as @ ''\<newline>'') });
        url \<leftarrow> toStr (propOf result ''html_url'');
        Some (sym_bug @ '' **Issue #'' @ number @ ''**\<newline>\<newline>''
              @ ''**'' @ title @ ''**\<newline>\<newline>''
              @ sym_memo @ '' **Description:**\<newline>'' @ body @ ''\<newline>\<newline>''
              @ sym_person @ '' **Author:** '' @ login @ ''\<newline>''
              @ sym_chart @ '' **State:** '' @ state @ ''\<newline>''
              @ sym_calendar @ '' **Created:** '' @ createdDate @ ''\<newline>''
              @ sym_cycle @ '' **Updated:** '' @ updatedDate @ ''\<newline>''
              @ labels @ assignees
              @ ''\<newline>'' @ sym_link @ '' [View on GitHub]('' @ url @ '')'') })"

definition formatUserProfile :: "json \<Rightarrow> string option" where
  "formatUserProfile result =
     (if \<not> truthy result then Some ''Could not retrieve user profile.''
      else do {
        name \<leftarrow> (if truthy (propOf result ''name'') then toStr (propOf result ''name'')
                  else toStr (propOf result ''login''));
        login \<leftarrow> toStr (propOf result ''login'');
        bio \<leftarrow> orElse (propOf result ''bio'') ''No bio'';
        location \<leftarrow> orElse (propOf result ''location'') ''Location not specified'';
        public_repos \<leftarrow> orElse (propOf result ''public_repos'') ''0'';
        followers \<leftarrow> orElse (propOf result ''followers'') ''0'';
        following \<leftarrow> orElse (propOf result ''following'') ''0'';
        url \<leftarrow> toStr (propOf result ''html_url'');
        Some (sym_person @ '' **GitHub Profile**\<newline>\<newline>''
              @ ''**'' @ name @ ''**\<newline>''
              @ ''@'' @ login @ ''\<newline>''
              @ bio @ ''\<newline>\<newline>''
              @ sym_pin @ '' '' @ location @ ''\<newline>''
              @ sym_chart @ '' '' @ public_repos @ '' public repos '' @ sym_bullet @ '' ''
              @ followers @ '' followers '' @ sym_bullet @ '' '' @ following @ '' following\<newline>''
              @ sym_link @ '' '' @ url) })"

definition toolEntry :: "json \<Rightarrow> string option" where
  "toolEntry tool =
     (if nullish tool then None
      else do { name \<leftarrow> toStr (propOf tool ''name'');
                description \<leftarrow> orElse (propOf tool ''description'') ''No description'';
                Some (sym_bullet @ '' **'' @ name @ ''**: '' @ description) })"

definition formatToolsList :: "json \<Rightarrow> string option" where
  "formatToolsList result =
     (if \<not> truthy result \<or> \<not> truthy (propOf result ''tools'')
         \<or> \<not> isArray (propOf result ''tools'')
      then Some (sym_tools @ '' **Available GitHub Tools**: Could not retrieve tool list.'')
      else do { let tools = take 10 (elems (propOf result ''tools''));
                toolList \<leftarrow> mapM toolEntry tools;
                Some (sym_tools @ '' **Available GitHub Tools** (''
                      @ showingOf (length tools) (length (elems (propOf result ''tools''))) 10
                      @ ''):\<newline>\<newline>'' @ join ''\<newline>'' toolList) })"

text \<open>
  The static \<^verbatim>\<open>GitHubToolParser.formatToolResult\<close>: the \<^verbatim>\<open>switch\<close> of its \<^verbatim>\<open>try\<close>
  block, and the method with its \<^verbatim>\<open>catch\<close>.
\<close>

definition formatToolResult_static_try :: "platform \<Rightarrow> string \<Rightarrow> json \<Rightarrow> string option" where
  "formatToolResult_static_try P toolName result =
     (if toolName = ''github_repo_list'' then formatRepoList result
      else if toolName = ''github_pr_list'' then formatPullRequestList P result
      else if toolName = ''github_issues_list'' then formatIssuesList P result
      else if toolName = ''github_issue_get'' then formatSingleIssue P result
      else if toolName = ''github_user_get'' then formatUserProfile result
      else if toolName = ''_list_tools'' then formatToolsList result
      else Some (sym_check @ '' Tool '' @ [CHR 0x27] @ toolName @ [CHR 0x27]
                 @ '' executed successfully:\<newline>'' @ [CHR 0x60, CHR 0x60, CHR 0x60]
                 @ ''json\<newline>'' @ JSON_stringify2 P result @ ''\<newline>''
                 @ [CHR 0x60, CHR 0x60, CHR 0x60]))"

definition formatToolResult_static :: "platform \<Rightarrow> string \<Rightarrow> json \<Rightarrow> string option" where
  "formatToolResult_static P toolName result =
     (case formatToolResult_static_try P toolName result of
        Some s \<Rightarrow> Some s
      | None \<Rightarrow> Some (sym_warning @ '' Tool '' @ [CHR 0x27] @ toolName @ [CHR 0x27]
                       @ '' completed but result formatting failed: ''
                       @ JSON_stringify P result))"

section \<open>Text patterns of the parser (githubToolParser.ts)\<close>

text \<open>
  The regular expressions of the code use literals, character classes, \<^verbatim>\<open>+\<close> on a
  class, \<^verbatim>\<open>?\<close>, sequence, alternative and capturing groups. \<open>rmatch r s caps\<close> lists the
  ways \<open>r\<close> matches a prefix of \<open>s\<close>, in the order in which a backtracking matcher
  tries them (\<^verbatim>\<open>+\<close> and \<^verbatim>\<open>?\<close> are greedy, the left alternative comes first); each way
  is the rest of the input with the captures made so far. \<^verbatim>\<open>String.prototype.match\<close>
  with a pattern that has no \<^verbatim>\<open>g\<close> flag takes the first way at the leftmost start
  position that has one, and is \<open>search\<close>.
\<close>

datatype regex =
    Lit string
  | LitI string
  | Cls "char \<Rightarrow> bool"
  | Plus "char \<Rightarrow> bool"
  | Opt regex
  | Seq regex regex
  | Alt regex regex
  | Grp nat regex

text \<open>ASCII letters in lower case, as \<^verbatim>\<open>toLowerCase\<close> gives them.\<close>

definition toLowerChar :: "char \<Rightarrow> char" where
  "toLowerChar c =
     (case map_of (zip ''ABCDEFGHIJKLMNOPQRSTUVWXYZ'' ''abcdefghijklmnopqrstuvwxyz'') c of
        Some l \<Rightarrow> l
      | None \<Rightarrow> c)"

definition toLowerCase :: "string \<Rightarrow> string" where
  "toLowerCase s = map toLowerChar s"

type_synonym captures = "(nat \<times> string) list"

fun rmatch :: "regex \<Rightarrow> string \<Rightarrow> captures \<Rightarrow> (string \<times> captures) list" where
  "rmatch (Lit l) s caps = (if startsWith s l then [(drop (length l) s, caps)] else [])"
| "rmatch (LitI l) s caps =
     (if toLowerCase (take (length l) s) = toLowerCase l
      then [(drop (length l) s, caps)] else [])"
| "rmatch (Cls p) s caps =
     (case s of [] \<Rightarrow> [] | c # cs \<Rightarrow> if p c then [(cs, caps)] else [])"
| "rmatch (Plus p) s caps =
     map (\<lambda>k. (drop k s, caps)) (rev [1..<Suc (length (takeWhile p s))])"
| "rmatch (Opt r) s caps = rmatch r s caps @ [(s, caps)]"
| "rmatch (Seq r1 r2) s caps =
     concat (map (\<lambda>(s', caps'). rmatch r2 s' caps') (rmatch r1 s caps))"
| "rmatch (Alt r1 r2) s caps = rmatch r1 s caps @ rmatch r2 s caps"
| "rmatch (Grp n r) s caps =
     map (\<lambda>(s', caps'). (s', (n, take (length s - length s') s) # caps')) (rmatch r s caps)"

text \<open>
  \<open>search r s\<close> is \<^verbatim>\<open>s.match(r)\<close>: \<open>None\<close> for \<^verbatim>\<open>null\<close>, else the captures; \<open>group m n\<close>
  is \<^verbatim>\<open>m[n]\<close>, with \<open>None\<close> for a group that took no part in the match.
\<close>

fun search :: "regex \<Rightarrow> string \<Rightarrow> captures option" where
  "search r [] = (case rmatch r [] [] of [] \<Rightarrow> None | (rest, caps) # others \<Rightarrow> Some caps)"
| "search r (c # cs) =
     (case rmatch r (c # cs) [] of [] \<Rightarrow> search r cs | (rest, caps) # others \<Rightarrow> Some caps)"

definition group :: "captures \<Rightarrow> nat \<Rightarrow> string option" where
  "group m n = map_of m n"

text \<open>The character classes: \<^verbatim>\<open>\s\<close>, \<^verbatim>\<open>\d\<close>, \<^verbatim>\<open>[a-zA-Z0-9-_]\<close>, \<^verbatim>\<open>[a-zA-Z0-9-_/.]\<close>,
  the quotes \<^verbatim>\<open>['""]\<close> and \<^verbatim>\<open>['"]\<close>, and \<^verbatim>\<open>[^'"]\<close>.\<close>

definition isSpace :: "char \<Rightarrow> bool" where
  "isSpace c = (c \<in> set [CHR 0x09, CHR 0x0A, CHR 0x0B, CHR 0x0C, CHR 0x0D, CHR 0x20])"

definition isDigit :: "char \<Rightarrow> bool" where
  "isDigit c = (c \<in> set ''0123456789'')"

definition isNameChar :: "char \<Rightarrow> bool" where
  "isNameChar c =
     (c \<in> set ''abcdefghijklmnopqrstuvwxyzABCDEFGHIJKLMNOPQRSTUVWXYZ0123456789-_'')"

definition isPathChar :: "char \<Rightarrow> bool" where
  "isPathChar c = (isNameChar c \<or> c = CHR ''/'' \<or> c = CHR ''.'')"

definition isQuote :: "char \<Rightarrow> bool" where
  "isQuote c = (c = CHR 0x27 \<or> c = CHR 0x22)"

definition notQuote :: "char \<Rightarrow> bool" where
  "notQuote c = (\<not> isQuote c)"

text \<open>\<^verbatim>\<open>/(?:repo|repository)\s+(?:named?\s+)?['""]?([a-zA-Z0-9-_]+)['""]?/\<close>\<close>

definition repoNamePattern :: regex where
  "repoNamePattern =
     Seq (Alt (Lit ''repo'') (Lit ''repository''))
    (Seq (Plus isSpace)
    (Seq (Opt (Seq (Lit ''name'') (Seq (Opt (Lit ''d'')) (Plus isSpace))))
    (Seq (Opt (Cls isQuote))
    (Seq (Grp 1 (Plus isNameChar))
         (Opt (Cls isQuote))))))"

text \<open>\<^verbatim>\<open>/([a-zA-Z0-9-_]+)\/([a-zA-Z0-9-_]+)/\<close>\<close>

definition ownerRepoPattern :: regex where
  "ownerRepoPattern =
     Seq (Grp 1 (Plus isNameChar)) (Seq (Lit ''/'') (Grp 2 (Plus isNameChar)))"

text \<open>\<^verbatim>\<open>/(?:file|path)\s+['""]?([a-zA-Z0-9-_/.]+)['""]?/\<close>\<close>

definition filePathPattern :: regex where
  "filePathPattern =
     Seq (Alt (Lit ''file'') (Lit ''path''))
    (Seq (Plus isSpace)
    (Seq (Opt (Cls isQuote))
    (Seq (Grp 1 (Plus isPathChar))
         (Opt (Cls isQuote)))))"

text \<open>\<^verbatim>\<open>/(?:issue|bug)\s+['""]([^'"]+)['"]/\<close>\<close>

definition issueTitlePattern :: regex where
  "issueTitlePattern =
     Seq (Alt (Lit ''issue'') (Lit ''bug''))
    (Seq (Plus isSpace)
    (Seq (Cls isQuote)
    (Seq (Grp 1 (Plus notQuote))
         (Cls isQuote))))"

text \<open>\<^verbatim>\<open>/#(\d+)|issue\s+(\d+)|number\s+(\d+)/i\<close>\<close>

definition issueNumberPattern :: regex where
  "issueNumberPattern =
     Alt (Seq (Lit ''#'') (Grp 1 (Plus isDigit)))
    (Alt (Seq (LitI ''issue'') (Seq (Plus isSpace) (Grp 2 (Plus isDigit))))
         (Seq (LitI ''number'') (Seq (Plus isSpace) (Grp 3 (Plus isDigit)))))"

text \<open>
  \<^verbatim>\<open>parseInt(s, 10)\<close> and \<^verbatim>\<open>parseInt(s)\<close> on a string of decimal digits, which is what
  the groups \<^verbatim>\<open>(\d+)\<close> hold. The model covers numbers below \<open>2^53\<close>, which JavaScript
  represents exactly.
\<close>

definition parseInt :: "string \<Rightarrow> int" where
  "parseInt s = foldl (\<lambda>a c. 10 * a + (int (of_char c) - 48)) 0 s"

text \<open>\<^verbatim>\<open>String.prototype.trim\<close>.\<close>

definition trim :: "string \<Rightarrow> string" where
  "trim s = rev (dropWhile isSpace (rev (dropWhile isSpace s)))"

section \<open>Intent parser (githubToolParser.ts)\<close>

text \<open>The two environment variables that the code reads; \<open>None\<close> when unset.\<close>

record env =
  GITHUB_DEFAULT_OWNER :: "string option"
  GITHUB_DEFAULT_REPO :: "string option"

record ToolInvocation =
  toolName :: string
  arguments :: "(string \<times> json) list"
  description :: string

definition matchesPattern :: "string \<Rightarrow> string list \<Rightarrow> bool" where
  "matchesPattern text patterns = list_ex (\<lambda>pattern. includes_str text pattern) patterns"

definition extractRepoName :: "string \<Rightarrow> string option" where
  "extractRepoName text =
     (case search repoNamePattern text of None \<Rightarrow> None | Some m \<Rightarrow> group m 1)"

text \<open>A repository reference \<^verbatim>\<open>{owner, name}\<close> is the pair \<open>(owner, name)\<close>.\<close>

definition extractRepoReference :: "env \<Rightarrow> string \<Rightarrow> (string \<times> string) option" where
  "extractRepoReference E text =
     (case search ownerRepoPattern text of
        Some fullMatch \<Rightarrow>
          (case (group fullMatch 1, group fullMatch 2) of
             (Some owner, Some name) \<Rightarrow> Some (owner, name)
           | _ \<Rightarrow> None)
      | None \<Rightarrow>
          (case search repoNamePattern text of
             Some repoMatch \<Rightarrow>
               (case group repoMatch 1 of
                  Some name \<Rightarrow> Some (''CURRENT_USER'', name)
                | None \<Rightarrow> None)
           | None \<Rightarrow>
               (case (GITHUB_DEFAULT_OWNER E, GITHUB_DEFAULT_REPO E) of
                  (Some defaultOwner, Some defaultRepo) \<Rightarrow>
                    (if defaultOwner \<noteq> [] \<and> defaultRepo \<noteq> []
                     then Some (defaultOwner, defaultRepo) else None)
                | _ \<Rightarrow> None)))"

definition extractFilePath :: "string \<Rightarrow> string option" where
  "extractFilePath text =
     (case search filePathPattern text of None \<Rightarrow> None | Some m \<Rightarrow> group m 1)"

definition extractIssueTitle :: "string \<Rightarrow> string option" where
  "extractIssueTitle text =
     (case search issueTitlePattern text of None \<Rightarrow> None | Some m \<Rightarrow> group m 1)"

text \<open>
  \<^verbatim>\<open>match[1] || match[2] || match[3]\<close>: exactly one group took part in the match, and
  it holds at least one digit.
\<close>

definition extractIssueNumber :: "string \<Rightarrow> int option" where
  "extractIssueNumber text =
     (case search issueNumberPattern text of
        None \<Rightarrow> None
      | Some m \<Rightarrow>
          (case group m 1 of
             Some number \<Rightarrow> Some (parseInt number)
           | None \<Rightarrow>
               (case group m 2 of
                  Some number \<Rightarrow> Some (parseInt number)
                | None \<Rightarrow>
                    (case group m 3 of
                       Some number \<Rightarrow> Some (parseInt number)
                     | None \<Rightarrow> None))))"

text \<open>
  \<^verbatim>\<open>parseUserIntent\<close>. Each \<^verbatim>\<open>if\<close> of the code appends its invocation to the list or
  leaves the list as it is; the last one looks at the length of the list so far.
\<close>

definition parseUserIntent :: "env \<Rightarrow> string \<Rightarrow> ToolInvocation list" where
  "parseUserIntent E message =
    (let text = trim (toLowerCase message);
         invocations = [];
         \<comment> \<open>Repository operations\<close>
         invocations = invocations @
           (if matchesPattern text [''list repos'', ''show repositories'', ''my repos'', ''repositories'']
            then [\<lparr>toolName = ''github_repo_list'',
                   arguments = [(''type'', JStr ''owner'')],
                   description = ''Listing your repositories''\<rparr>]
            else []);
         invocations = invocations @
           (if matchesPattern text [''create repo'', ''new repository'']
            then (case extractRepoName text of
                    Some repoName \<Rightarrow>
                      (if repoName \<noteq> []
                       then [\<lparr>toolName = ''github_repo_create'',
                              arguments = [(''name'', JStr repoName), (''private'', JBool False)],
                              description = ''Creating repository '' @ [CHR 0x27] @ repoName
                                            @ [CHR 0x27]\<rparr>]
                       else [])
                  | None \<Rightarrow> [])
            else []);
         \<comment> \<open>Pull request operations\<close>
         invocations = invocations @
           (if matchesPattern text [''list prs'', ''pull requests'', ''show prs'', ''open prs'']
            then (case extractRepoReference E text of
                    Some (owner, name) \<Rightarrow>
                      [\<lparr>toolName = ''github_pr_list'',
                        arguments = [(''owner'', JStr owner), (''repo'', JStr name),
                                     (''state'', JStr ''open'')],
                        description = ''Listing pull requests for '' @ owner @ ''/'' @ name\<rparr>]
                  | None \<Rightarrow> [])
            else []);
         invocations = invocations @
           (if matchesPattern text [''create pr'', ''new pull request'', ''open pr'']
            then (case extractRepoReference E text of
                    Some (owner, name) \<Rightarrow>
                      [\<lparr>toolName = ''github_pr_create'',
                        arguments = [(''owner'', JStr owner), (''repo'', JStr name),
                                     (''title'', JStr ''New Pull Request''),
                                     (''head'', JStr ''feature-branch''),
                                     (''base'', JStr ''main'')],
                        description = ''Creating pull request for '' @ owner @ ''/'' @ name\<rparr>]
                  | None \<Rightarrow> [])
            else []);
         \<comment> \<open>Issue operations\<close>
         invocations = invocations @
           (if matchesPattern text [''list issues'', ''show issues'', ''open issues'']
            then (case extractRepoReference E text of
                    Some (owner, name) \<Rightarrow>
                      [\<lparr>toolName = ''github_issues_list'',
                        arguments = [(''owner'', JStr owner), (''repo'', JStr name),
                                     (''state'', JStr ''open'')],
                        description = ''Listing issues for '' @ owner @ ''/'' @ name\<rparr>]
                  | None \<Rightarrow> [])
            else []);
         \<comment> \<open>Get specific issue by number\<close>
         invocations = invocations @
           (if matchesPattern text [''issue #'', ''issue number'', ''show issue'', ''get issue'']
            then (case (extractIssueNumber text, extractRepoReference E text) of
                    (Some issueNumber, Some (owner, name)) \<Rightarrow>
                      (if issueNumber \<noteq> 0
                       then [\<lparr>toolName = ''github_issue_get'',
                              arguments = [(''owner'', JStr owner), (''repo'', JStr name),
                                           (''issue_number'', JNum issueNumber)],
                              description = ''Getting issue #'' @ showInt issueNumber @ '' from ''
                                            @ owner @ ''/'' @ name\<rparr>]
                       else [])
                  | _ \<Rightarrow> [])
            else []);
         invocations = invocations @
           (if matchesPattern text [''create issue'', ''new issue'', ''report bug'']
            then (case extractRepoReference E text of
                    Some (owner, name) \<Rightarrow>
                      [\<lparr>toolName = ''github_issue_create'',
                        arguments = [(''owner'', JStr owner), (''repo'', JStr name),
                                     (''title'', JStr (case extractIssueTitle text of
                                                         Some title \<Rightarrow>
                                                           if title \<noteq> [] then title else ''New Issue''
                                                       | None \<Rightarrow> ''New Issue'')),
                                     (''body'', JStr ''Created via Teams AI agent'')],
                        description = ''Creating issue in '' @ owner @ ''/'' @ name\<rparr>]
                  | None \<Rightarrow> [])
            else []);
         \<comment> \<open>File operations\<close>
         invocations = invocations @
           (if matchesPattern text [''show file'', ''get file'', ''read file'']
            then (case (extractRepoReference E text, extractFilePath text) of
                    (Some (owner, name), Some filePath) \<Rightarrow>
                      (if filePath \<noteq> []
                       then [\<lparr>toolName = ''github_file_get'',
                              arguments = [(''owner'', JStr owner), (''repo'', JStr name),
                                           (''path'', JStr filePath)],
                              description = ''Getting file '' @ filePath @ '' from ''
                                            @ owner @ ''/'' @ name\<rparr>]
                       else [])
                  | _ \<Rightarrow> [])
            else []);
         \<comment> \<open>User/profile operations\<close>
         invocations = invocations @
           (if matchesPattern text [''my profile'', ''user info'', ''who am i'']
            then [\<lparr>toolName = ''github_user_get'',
                   arguments = [],
                   description = ''Getting your GitHub profile information''\<rparr>]
            else []);
         \<comment> \<open>Default: list available tools if no specific intent detected\<close>
         invocations = invocations @
           (if length invocations = 0
               \<and> matchesPattern text [''github'', ''tools'', ''help'', ''what can you do'']
            then [\<lparr>toolName = ''_list_tools'',
                   arguments = [],
                   description = ''Listing available GitHub tools''\<rparr>]
            else [])
     in invocations)"

section \<open>Keyword resolver of the message handler (app/app.ts)\<close>

text \<open>
  Field names that two interfaces of the code share carry a suffix here:
  \<open>description_tool\<close> is \<^verbatim>\<open>GitHubTool.description\<close>, \<open>toolName_call\<close> the \<^verbatim>\<open>toolName\<close> of an
  element of \<^verbatim>\<open>aiDecision.toolCalls\<close>, \<open>toolName_result\<close> that of a \<^verbatim>\<open>GitHubToolResult\<close>.
\<close>

record GitHubTool =
  name :: string
  description_tool :: string
  inputSchema :: json

record toolCall =
  toolName_call :: string
  parameters :: "(string \<times> json) list"
  reasoning :: string

record aiDecision =
  toolCalls :: "toolCall list"
  needsMoreInfo :: bool
  missingInfo :: "string option"

text \<open>\<^verbatim>\<open>s.split('_')\<close> and \<^verbatim>\<open>s.split(/\s+/)\<close>; the second argument is the piece read so far.\<close>

fun splitChar :: "char \<Rightarrow> string \<Rightarrow> string \<Rightarrow> string list" where
  "splitChar sep cur [] = [cur]"
| "splitChar sep cur (c # cs) =
     (if c = sep then cur # splitChar sep [] cs else splitChar sep (cur @ [c]) cs)"

fun splitSpaces :: "bool \<Rightarrow> string \<Rightarrow> string \<Rightarrow> string list" where
  "splitSpaces inRun cur [] = [cur]"
| "splitSpaces inRun cur (c # cs) =
     (if isSpace c
      then (if inRun then splitSpaces True cur cs else cur # splitSpaces True [] cs)
      else splitSpaces False (cur @ [c]) cs)"

text \<open>A value of \<^verbatim>\<open>process.env\<close> as a property value: \<^verbatim>\<open>undefined\<close> when unset.\<close>

definition envValue :: "string option \<Rightarrow> json" where
  "envValue v = (case v of Some s \<Rightarrow> JStr s | None \<Rightarrow> JUndefined)"

text \<open>\<^verbatim>\<open>/#(\d+)/\<close>\<close>

definition hashNumberPattern :: regex where
  "hashNumberPattern = Seq (Lit ''#'') (Grp 1 (Plus isDigit))"

text \<open>\<^verbatim>\<open>availableTools.find(p)?.name || d\<close>\<close>

definition foundNameOr :: "(GitHubTool \<Rightarrow> bool) \<Rightarrow> GitHubTool list \<Rightarrow> string \<Rightarrow> string" where
  "foundNameOr p tools d =
     (case find p tools of
        Some t \<Rightarrow> (if name t \<noteq> [] then name t else d)
      | None \<Rightarrow> d)"

text \<open>
  The predicate of the last branch: some piece of the tool's name, split at
  underscores, occurs inside some word of the request.
\<close>

definition sharesToken :: "string \<Rightarrow> GitHubTool \<Rightarrow> bool" where
  "sharesToken normalizedRequest t =
     (let toolWords = splitChar (CHR ''_'') [] (toLowerCase (name t));
          requestWords = splitSpaces False [] normalizedRequest
      in list_ex (\<lambda>word. list_ex (\<lambda>rword. includes_str rword word) requestWords) toolWords)"

text \<open>
  The \<^verbatim>\<open>try\<close> block that builds \<^verbatim>\<open>aiDecision\<close>. Tool names are strings, so nothing in
  it throws.
\<close>

definition resolveIntent :: "env \<Rightarrow> GitHubTool list \<Rightarrow> string \<Rightarrow> aiDecision" where
  "resolveIntent E tools userRequest =
    (let normalizedRequest = toLowerCase userRequest;
         calls =
           (if includes_str normalizedRequest ''issue'' \<and> includes_str normalizedRequest ''#''
            then (case search hashNumberPattern normalizedRequest of
                    None \<Rightarrow> []
                  | Some issueMatch \<Rightarrow>
                      (case group issueMatch 1 of
                         None \<Rightarrow> []
                       | Some digits \<Rightarrow>
                           [\<lparr>toolName_call =
                               foundNameOr (\<lambda>t. includes_str (name t) ''issue''
                                                 \<and> includes_str (name t) ''get'')
                                 tools ''get_issue'',
                             parameters =
                               [(''owner'', envValue (GITHUB_DEFAULT_OWNER E)),
                                (''repo'', envValue (GITHUB_DEFAULT_REPO E)),
                                (''issue_number'', JNum (parseInt digits))],
                             reasoning = ''Getting issue #'' @ digits\<rparr>]))
            else if includes_str normalizedRequest ''available''
                    \<and> includes_str normalizedRequest ''tool''
            then []
            else if includes_str normalizedRequest ''list''
                    \<and> includes_str normalizedRequest ''repo''
            then [\<lparr>toolName_call =
                     foundNameOr (\<lambda>t. includes_str (name t) ''repo''
                                       \<and> includes_str (name t) ''list'')
                       tools ''list_repos'',
                   parameters = [],
                   reasoning = ''Listing repositories''\<rparr>]
            else (case find (sharesToken normalizedRequest) tools of
                    None \<Rightarrow> []
                  | Some relevantTool \<Rightarrow>
                      [\<lparr>toolName_call = name relevantTool,
                        parameters =
                          (case (GITHUB_DEFAULT_OWNER E, GITHUB_DEFAULT_REPO E) of
                             (Some owner, Some repo) \<Rightarrow>
                               (if owner \<noteq> [] \<and> repo \<noteq> []
                                then [(''owner'', JStr owner), (''repo'', JStr repo)]
                                else [])
                           | _ \<Rightarrow> []),
                        reasoning = ''Using '' @ name relevantTool
                                    @ '' based on your request''\<rparr>]))
     in if length calls = 0
        then \<lparr>toolCalls = calls, needsMoreInfo = True,
              missingInfo = Some (''I need more specific information about what ''
                                  @ ''GitHub operation you want to perform.'')\<rparr>
        else \<lparr>toolCalls = calls, needsMoreInfo = False, missingInfo = None\<rparr>)"

text \<open>The trigger substrings of all categories of \<^verbatim>\<open>parseUserIntent\<close>, in its order.\<close>

definition intentTriggers :: "string list" where
  "intentTriggers =
     [''list repos'', ''show repositories'', ''my repos'', ''repositories'',
      ''create repo'', ''new repository'',
      ''list prs'', ''pull requests'', ''show prs'', ''open prs'',
      ''create pr'', ''new pull request'', ''open pr'',
      ''list issues'', ''show issues'', ''open issues'',
      ''issue #'', ''issue number'', ''show issue'', ''get issue'',
      ''create issue'', ''new issue'', ''report bug'',
      ''show file'', ''get file'', ''read file'',
      ''my profile'', ''user info'', ''who am i'',
      ''github'', ''tools'', ''help'', ''what can you do'']"

section \<open>Remote tool client and service (mcpClient.ts, githubMcpService.ts)\<close>

text \<open>
  A thrown value is an \<^verbatim>\<open>Error\<close> with its message or some other value;
  \<open>errorMessage e\<close> is \<^verbatim>\<open>e instanceof Error ? e.message : 'Unknown error'\<close>.
\<close>

datatype thrown = Error string | NonError

definition errorMessage :: "thrown \<Rightarrow> string" where
  "errorMessage e = (case e of Error m \<Rightarrow> m | NonError \<Rightarrow> ''Unknown error'')"

text \<open>
  The protocol client of the SDK is outside the repository. It is a parameter: three
  operations on a state \<open>'w\<close> of the transport and the remote server, each of which
  returns a value (\<open>Inr\<close>) or throws (\<open>Inl\<close>). The tool list of a response is typed as
  the SDK types it; \<open>None\<close> is a response without a \<^verbatim>\<open>tools\<close> array.
\<close>

record rawTool =
  raw_name :: string
  raw_description :: "string option"
  raw_inputSchema :: "json option"

record 'w sdk =
  sdk_connect :: "'w \<Rightarrow> (thrown + unit) \<times> 'w"
  sdk_listTools :: "'w \<Rightarrow> (thrown + rawTool list option) \<times> 'w"
  sdk_callTool :: "string \<Rightarrow> (string \<times> json) list \<Rightarrow> 'w \<Rightarrow> (thrown + json) \<times> 'w"

text \<open>
  The state of an \<^verbatim>\<open>MCPClient\<close>: its flag, the state behind the SDK, and the log of
  the requests it has issued to the SDK, oldest first. The log is not a field of the
  code; it records the effects that the claims count.
\<close>

datatype request = Connect | ListTools | CallTool string "(string \<times> json) list"

record 'w MCPClient =
  connected :: bool
  world :: 'w
  issued :: "request list"

definition connect :: "'w sdk \<Rightarrow> 'w MCPClient \<Rightarrow> (thrown + unit) \<times> 'w MCPClient" where
  "connect S c =
     (if \<not> connected c then
        (case sdk_connect S (world c) of
           (Inr u, w) \<Rightarrow>
             (Inr (), c\<lparr>connected := True, world := w, issued := issued c @ [Connect]\<rparr>)
         | (Inl e, w) \<Rightarrow>
             (Inl (Error (''Failed to connect to GitHub MCP server: '' @ errorMessage e)),
              c\<lparr>world := w, issued := issued c @ [Connect]\<rparr>))
      else (Inr (), c))"

definition ensureConnected :: "'w sdk \<Rightarrow> 'w MCPClient \<Rightarrow> (thrown + unit) \<times> 'w MCPClient" where
  "ensureConnected S c = (if \<not> connected c then connect S c else (Inr (), c))"

definition listTools ::
  "'w sdk \<Rightarrow> 'w MCPClient \<Rightarrow> (thrown + rawTool list option) \<times> 'w MCPClient" where
  "listTools S c =
     (case ensureConnected S c of
        (Inl e, c1) \<Rightarrow> (Inl (Error (''Failed to list tools: '' @ errorMessage e)), c1)
      | (Inr u, c1) \<Rightarrow>
          (case sdk_listTools S (world c1) of
             (Inr r, w) \<Rightarrow> (Inr r, c1\<lparr>world := w, issued := issued c1 @ [ListTools]\<rparr>)
           | (Inl e, w) \<Rightarrow>
               (Inl (Error (''Failed to list tools: '' @ errorMessage e)),
                c1\<lparr>world := w, issued := issued c1 @ [ListTools]\<rparr>)))"

definition callTool ::
  "'w sdk \<Rightarrow> 'w MCPClient \<Rightarrow> string \<Rightarrow> (string \<times> json) list
     \<Rightarrow> (thrown + json) \<times> 'w MCPClient" where
  "callTool S c tname args =
     (case ensureConnected S c of
        (Inl e, c1) \<Rightarrow>
          (Inl (Error (''Failed to call tool '' @ [CHR 0x27] @ tname @ [CHR 0x27] @ '': ''
                       @ errorMessage e)), c1)
      | (Inr u, c1) \<Rightarrow>
          (case sdk_callTool S tname args (world c1) of
             (Inr r, w) \<Rightarrow>
               (Inr r, c1\<lparr>world := w, issued := issued c1 @ [CallTool tname args]\<rparr>)
           | (Inl e, w) \<Rightarrow>
               (Inl (Error (''Failed to call tool '' @ [CHR 0x27] @ tname @ [CHR 0x27] @ '': ''
                            @ errorMessage e)),
                c1\<lparr>world := w, issued := issued c1 @ [CallTool tname args]\<rparr>)))"

record 'w GitHubMcpService =
  mcpClient :: "'w MCPClient"
  availableTools :: "GitHubTool list"
  toolsLoaded :: bool

record GitHubToolResult =
  success :: bool
  data :: "json option"
  error :: "string option"
  toolName_result :: string
  formattedResult :: "string option"

text \<open>The arrow function that \<^verbatim>\<open>loadAvailableTools\<close> maps over the tools of a response.\<close>

definition toGitHubTool :: "rawTool \<Rightarrow> GitHubTool" where
  "toGitHubTool t =
     \<lparr>name = raw_name t,
      description_tool =
        (case raw_description t of
           Some d \<Rightarrow> (if d \<noteq> [] then d else ''No description available'')
         | None \<Rightarrow> ''No description available''),
      inputSchema =
        (case raw_inputSchema t of
           Some s \<Rightarrow> (if truthy s then s else JObj [])
         | None \<Rightarrow> JObj [])\<rparr>"

definition loadAvailableTools :: "'w sdk \<Rightarrow> 'w GitHubMcpService \<Rightarrow> 'w GitHubMcpService" where
  "loadAvailableTools S svc =
     (case listTools S (mcpClient svc) of
        (Inr toolsResponse, c) \<Rightarrow>
          svc\<lparr>mcpClient := c,
              availableTools :=
                (case toolsResponse of Some tools \<Rightarrow> map toGitHubTool tools | None \<Rightarrow> []),
              toolsLoaded := True\<rparr>
      | (Inl e, c) \<Rightarrow>
          svc\<lparr>mcpClient := c, availableTools := [], toolsLoaded := True\<rparr>)"

definition getAvailableTools ::
  "'w sdk \<Rightarrow> 'w GitHubMcpService \<Rightarrow> GitHubTool list \<times> 'w GitHubMcpService" where
  "getAvailableTools S svc =
     (if \<not> toolsLoaded svc
      then (let svc1 = loadAvailableTools S svc in (availableTools svc1, svc1))
      else (availableTools svc, svc))"

text \<open>
  \<^verbatim>\<open>executeTool\<close>. Its \<^verbatim>\<open>try\<close> block calls the client and then the formatter; the
  \<^verbatim>\<open>catch\<close> turns whatever was thrown into a result with \<^verbatim>\<open>success: false\<close>.
\<close>

definition executeTool ::
  "platform \<Rightarrow> 'w sdk \<Rightarrow> 'w GitHubMcpService \<Rightarrow> string \<Rightarrow> (string \<times> json) list
     \<Rightarrow> GitHubToolResult \<times> 'w GitHubMcpService" where
  "executeTool P S svc tname args =
     (case callTool S (mcpClient svc) tname args of
        (Inr result, c) \<Rightarrow>
          (case formatToolResult P tname result of
             Some formatted \<Rightarrow>
               (\<lparr>success = True, data = Some result, error = None,
                 toolName_result = tname, formattedResult = Some formatted\<rparr>,
                svc\<lparr>mcpClient := c\<rparr>)
           | None \<Rightarrow>
               (\<lparr>success = False, data = None, error = Some (typeErrorMessage P),
                 toolName_result = tname, formattedResult = None\<rparr>,
                svc\<lparr>mcpClient := c\<rparr>))
      | (Inl e, c) \<Rightarrow>
          (\<lparr>success = False, data = None, error = Some (errorMessage e),
            toolName_result = tname, formattedResult = None\<rparr>,
           svc\<lparr>mcpClient := c\<rparr>))"

text \<open>
  The tool-execution loop of the message handler:
  \<^verbatim>\<open>for (const toolCall of aiDecision.toolCalls) { results.push(await executeTool(...)) }\<close>.
  It returns the list \<^verbatim>\<open>results\<close> and the service after the last call.
\<close>

fun executeToolCalls ::
  "platform \<Rightarrow> 'w sdk \<Rightarrow> 'w GitHubMcpService \<Rightarrow> toolCall list
     \<Rightarrow> GitHubToolResult list \<times> 'w GitHubMcpService" where
  "executeToolCalls P S svc [] = ([], svc)"
| "executeToolCalls P S svc (toolCall # rest) =
     (case executeTool P S svc (toolName_call toolCall) (parameters toolCall) of
        (result, svc1) \<Rightarrow>
          (case executeToolCalls P S svc1 rest of
             (results, svc2) \<Rightarrow> (result # results, svc2)))"

section \<open>Overlapping calls of getAvailableTools\<close>

text \<open>
  An \<^verbatim>\<open>async\<close> method runs until an \<^verbatim>\<open>await\<close> and is resumed later, also when the
  awaited promise is already settled; other calls run in between. A call of
  \<^verbatim>\<open>getAvailableTools\<close> is a task, and its phase says where it is suspended:
  \<^item> \<open>Idle\<close>: the call has not been made;
  \<^item> \<open>AwaitConnect\<close>: \<^verbatim>\<open>connect\<close> waits for the SDK's \<^verbatim>\<open>connect\<close>;
  \<^item> \<open>AwaitEnsure\<close>: \<^verbatim>\<open>listTools\<close> waits at \<^verbatim>\<open>await this.ensureConnected()\<close>, the client being
    connected, and has not yet issued its request;
  \<^item> \<open>AwaitList\<close>: \<^verbatim>\<open>listTools\<close> waits for the SDK's \<^verbatim>\<open>listTools\<close>;
  \<^item> \<open>AwaitLoad\<close>: \<^verbatim>\<open>loadAvailableTools\<close> has stored its result and set the flag, and
    \<^verbatim>\<open>getAvailableTools\<close>, which waits at \<^verbatim>\<open>await this.loadAvailableTools()\<close>, has not yet
    been resumed;
  \<^item> \<open>Returned\<close>: \<^verbatim>\<open>getAvailableTools\<close> has read \<^verbatim>\<open>this.availableTools\<close> and returned it.

  An event is one uninterrupted stretch of a task that reads or writes the service:
  \<^item> \<open>Call t\<close>: the call is made. It reads \<^verbatim>\<open>toolsLoaded\<close> and, when the tools are loaded,
    returns \<^verbatim>\<open>availableTools\<close> at once; else it reads \<^verbatim>\<open>connected\<close> and, when the client
    is not connected, issues the SDK's \<^verbatim>\<open>connect\<close>;
  \<^item> \<open>ConnectSettled t r\<close>: the SDK's \<^verbatim>\<open>connect\<close> has settled with \<open>r\<close>. When it resolved,
    \<^verbatim>\<open>connect\<close> sets \<^verbatim>\<open>connected\<close>; when it rejected, the error travels up to the \<^verbatim>\<open>catch\<close>
    of \<^verbatim>\<open>loadAvailableTools\<close>, which stores the empty list and sets the flag;
  \<^item> \<open>ListSettled t r\<close>: the SDK's \<^verbatim>\<open>listTools\<close> has settled with \<open>r\<close>, and
    \<^verbatim>\<open>loadAvailableTools\<close> stores the tools (or the empty list) and sets the flag;
  \<^item> \<open>Resume t\<close>: the task is resumed after an \<^verbatim>\<open>await\<close> on a promise of the code itself.
    From \<open>AwaitEnsure\<close> it issues the SDK's \<^verbatim>\<open>listTools\<close>; from \<open>AwaitLoad\<close> it reads
    \<^verbatim>\<open>this.availableTools\<close>, as it is then, and returns it.

  Between two events of a task the code only hands a settled promise from one
  \<^verbatim>\<open>await\<close> to the next and touches no field of the service, so these resumptions are
  counted into the event that follows them. A schedule is the list of events in the
  order in which they happen; an event that does not fit the phase of its task
  changes nothing. The state behind the SDK is
  not modelled here: what the SDK answers comes with the event.
\<close>

datatype phase =
    Idle
  | AwaitConnect
  | AwaitEnsure
  | AwaitList
  | AwaitLoad
  | Returned "GitHubTool list"

datatype event =
    Call nat
  | ConnectSettled nat "thrown + unit"
  | ListSettled nat "thrown + rawTool list option"
  | Resume nat

record tasks =
  service :: "unit GitHubMcpService"
  phases :: "nat \<Rightarrow> phase"

definition issue :: "request \<Rightarrow> unit GitHubMcpService \<Rightarrow> unit GitHubMcpService" where
  "issue r svc = svc\<lparr>mcpClient := (mcpClient svc)\<lparr>issued := issued (mcpClient svc) @ [r]\<rparr>\<rparr>"

definition setConnected :: "unit GitHubMcpService \<Rightarrow> unit GitHubMcpService" where
  "setConnected svc = svc\<lparr>mcpClient := (mcpClient svc)\<lparr>connected := True\<rparr>\<rparr>"

text \<open>The tools that \<^verbatim>\<open>loadAvailableTools\<close> stores: those of the response, or the empty
  list when the response has no \<^verbatim>\<open>tools\<close> array or \<^verbatim>\<open>listTools\<close> threw.\<close>

definition loadedTools :: "thrown + rawTool list option \<Rightarrow> GitHubTool list" where
  "loadedTools r =
     (case r of
        Inr (Some tools) \<Rightarrow> map toGitHubTool tools
      | Inr None \<Rightarrow> []
      | Inl e \<Rightarrow> [])"

definition finishLoad ::
  "thrown + rawTool list option \<Rightarrow> unit GitHubMcpService \<Rightarrow> unit GitHubMcpService" where
  "finishLoad r svc = svc\<lparr>availableTools := loadedTools r, toolsLoaded := True\<rparr>"

fun step :: "event \<Rightarrow> tasks \<Rightarrow> tasks" where
  "step (Call t) s =
     (if phases s t \<noteq> Idle then s
      else if toolsLoaded (service s)
        then s\<lparr>phases := (phases s)(t := Returned (availableTools (service s)))\<rparr>
      else if connected (mcpClient (service s))
        then s\<lparr>phases := (phases s)(t := AwaitEnsure)\<rparr>
      else s\<lparr>service := issue Connect (service s), phases := (phases s)(t := AwaitConnect)\<rparr>)"
| "step (ConnectSettled t r) s =
     (if phases s t \<noteq> AwaitConnect then s
      else (case r of
              Inr u \<Rightarrow>
                s\<lparr>service := setConnected (service s), phases := (phases s)(t := AwaitEnsure)\<rparr>
            | Inl e \<Rightarrow>
                s\<lparr>service := finishLoad (Inl e) (service s),
                  phases := (phases s)(t := AwaitLoad)\<rparr>))"
| "step (ListSettled t r) s =
     (if phases s t \<noteq> AwaitList then s
      else s\<lparr>service := finishLoad r (service s), phases := (phases s)(t := AwaitLoad)\<rparr>)"
| "step (Resume t) s =
     (if phases s t = AwaitEnsure
        then s\<lparr>service := issue ListTools (service s), phases := (phases s)(t := AwaitList)\<rparr>
      else if phases s t = AwaitLoad
        then s\<lparr>phases := (phases s)(t := Returned (availableTools (service s)))\<rparr>
      else s)"

text \<open>\<open>run evs s\<close> is the state after the events \<open>evs\<close>, first to last.\<close>

definition run :: "event list \<Rightarrow> tasks \<Rightarrow> tasks" where
  "run evs s = foldl (\<lambda>s ev. step ev s) s evs"

text \<open>The task of an event, and the schedules that hold no event of the task \<open>t\<close>.\<close>

definition taskOf :: "event \<Rightarrow> nat" where
  "taskOf ev =
     (case ev of
        Call t \<Rightarrow> t
      | ConnectSettled t r \<Rightarrow> t
      | ListSettled t r \<Rightarrow> t
      | Resume t \<Rightarrow> t)"

definition ofOthers :: "nat \<Rightarrow> event list \<Rightarrow> bool" where
  "ofOthers t evs = list_all (\<lambda>ev. taskOf ev \<noteq> t) evs"

text \<open>The \<^verbatim>\<open>listTools\<close> requests among the requests issued so far.\<close>

definition listToolsIssued :: "tasks \<Rightarrow> nat" where
  "listToolsIssued s = length (filter (\<lambda>r. r = ListTools) (issued (mcpClient (service s))))"

section \<open>Sample inputs of the closed examples\<close>

text \<open>
  A platform for the closed examples. No example reads its fields: the proofs leave
  this definition folded, so each example holds on every platform.
\<close>

definition examplePlatform :: platform where
  "examplePlatform =
     \<lparr>toLocaleDateString = (\<lambda>v. ''Invalid Date''),
      JSON_stringify = (\<lambda>v. ''null''),
      JSON_stringify2 = (\<lambda>v. ''null''),
      stringAbove = (\<lambda>s k. False),
      typeErrorMessage = ''TypeError''\<rparr>"

text \<open>
  A pull-request payload:
  \<^verbatim>\<open>{number: 7, title: "Add parser", state: "open", head: {ref: "feature"}, base: {ref: "main"}}\<close>.
\<close>

definition prPayload :: json where
  "prPayload = JObj [(''number'', JNum 7), (''title'', JStr ''Add parser''),
     (''state'', JStr ''open''),
     (''head'', JObj [(''ref'', JStr ''feature'')]),
     (''base'', JObj [(''ref'', JStr ''main'')])]"

text \<open>
  A protocol envelope with one text item: \<^verbatim>\<open>{content: [{type: "text", text: "hi"}]}\<close>.
\<close>

definition envelope :: json where
  "envelope = JObj [(''content'', JArr [JObj [(''type'', JStr ''text''), (''text'', JStr ''hi'')]])]"

text \<open>A nested object: \<^verbatim>\<open>{a: {b: {c: [{d: null}]}}}\<close>.\<close>

definition nestedObject :: json where
  "nestedObject =
     JObj [(''a'', JObj [(''b'', JObj [(''c'', JArr [JObj [(''d'', JNull)]])])])]"

text \<open>
  An issue without its \<^verbatim>\<open>user\<close>: \<^verbatim>\<open>{number: 5, title: "Crash on start", state: "open"}\<close>.
\<close>

definition partialIssue :: json where
  "partialIssue =
     JObj [(''number'', JNum 5), (''title'', JStr ''Crash on start''), (''state'', JStr ''open'')]"

text \<open>
  An issue whose \<^verbatim>\<open>body\<close> is not a string but has a \<^verbatim>\<open>length\<close> above 200:
  \<^verbatim>\<open>{number: 1, title: "Bug", body: {length: 300}}\<close>. The preview calls
  \<^verbatim>\<open>item.body.substring\<close>, which is not a function.
\<close>

definition badIssue :: json where
  "badIssue =
     JObj [(''number'', JNum 1), (''title'', JStr ''Bug''),
           (''body'', JObj [(''length'', JNum 300)])]"

text \<open>An envelope whose item is \<^verbatim>\<open>null\<close>: \<^verbatim>\<open>{content: [null]}\<close>.\<close>

definition brokenEnvelope :: json where
  "brokenEnvelope = JObj [(''content'', JArr [JNull])]"

text \<open>A catalog of two tools, and an environment without default repository.\<close>

definition sampleCatalog :: "GitHubTool list" where
  "sampleCatalog =
     [\<lparr>name = ''get_issue'', description_tool = ''Get an issue'', inputSchema = JObj []\<rparr>,
      \<lparr>name = ''list_repos'', description_tool = ''List repositories'', inputSchema = JObj []\<rparr>]"

definition noDefaults :: env where
  "noDefaults = \<lparr>GITHUB_DEFAULT_OWNER = None, GITHUB_DEFAULT_REPO = None\<rparr>"

text \<open>
  Two SDK clients over a counter of tool calls: one whose second tool call fails, and
  one whose server is down.
\<close>

definition flakySdk :: "nat sdk" where
  "flakySdk =
     \<lparr>sdk_connect = (\<lambda>w. (Inr (), w)),
      sdk_listTools = (\<lambda>w. (Inr (Some []), w)),
      sdk_callTool = (\<lambda>tname args w.
         (if w = 1 then Inl (Error ''rate limit exceeded'') else Inr (JStr ''done''), w + 1))\<rparr>"

definition downSdk :: "nat sdk" where
  "downSdk =
     \<lparr>sdk_connect = (\<lambda>w. (Inr (), w)),
      sdk_listTools = (\<lambda>w. (Inl (Error ''service unavailable''), w)),
      sdk_callTool = (\<lambda>tname args w. (Inl (Error ''service unavailable''), w))\<rparr>"

text \<open>
  A service as its constructor leaves it, and one after \<^verbatim>\<open>initialize\<close> (connected, the
  catalog loaded).
\<close>

definition freshService :: "nat GitHubMcpService" where
  "freshService =
     \<lparr>mcpClient = \<lparr>connected = False, world = 0, issued = []\<rparr>,
      availableTools = [], toolsLoaded = False\<rparr>"

definition connectedService :: "nat GitHubMcpService" where
  "connectedService =
     \<lparr>mcpClient = \<lparr>connected = True, world = 0, issued = []\<rparr>,
      availableTools = sampleCatalog, toolsLoaded = True\<rparr>"

text \<open>A batch of three tool calls on the tools of the catalog.\<close>

definition threeCalls :: "toolCall list" where
  "threeCalls =
     [\<lparr>toolName_call = ''list_repos'', parameters = [], reasoning = ''Listing repositories''\<rparr>,
      \<lparr>toolName_call = ''get_issue'', parameters = [(''issue_number'', JNum 68)],
        reasoning = ''Getting issue #68''\<rparr>,
      \<lparr>toolName_call = ''get_issue'', parameters = [(''issue_number'', JNum 69)],
        reasoning = ''Getting issue #69''\<rparr>]"

text \<open>
  A service that is connected and has never loaded its tools (as after a first
  \<^verbatim>\<open>executeTool\<close> on a new instance), with no call of \<^verbatim>\<open>getAvailableTools\<close> made yet.
\<close>

definition neverLoaded :: tasks where
  "neverLoaded =
     \<lparr>service = \<lparr>mcpClient = \<lparr>connected = True, world = (), issued = []\<rparr>,
                  availableTools = [], toolsLoaded = False\<rparr>,
      phases = (\<lambda>t. Idle)\<rparr>"

text \<open>A tool as a \<^verbatim>\<open>listTools\<close> response holds it.\<close>

definition oneTool :: rawTool where
  "oneTool = \<lparr>raw_name = ''get_issue'', raw_description = Some ''Get an issue'',
              raw_inputSchema = None\<rparr>"

text \<open>
  The same for a service as its constructor leaves it (not connected), and a second
  tool of a \<^verbatim>\<open>listTools\<close> response.
\<close>

definition freshTasks :: tasks where
  "freshTasks =
     \<lparr>service = \<lparr>mcpClient = \<lparr>connected = False, world = (), issued = []\<rparr>,
                  availableTools = [], toolsLoaded = False\<rparr>,
      phases = (\<lambda>t. Idle)\<rparr>"

definition otherTool :: rawTool where
  "otherTool = \<lparr>raw_name = ''list_repos'', raw_description = Some ''List repositories'',
                raw_inputSchema = None\<rparr>"

section \<open>Verified properties\<close>

subsection \<open>Credential store\<close>

text \<open>
  Claim C4. A token record is valid exactly when its age \<open>now - obtained_at\<close> is below
  30 days (\<open>30 * 24 * 60 * 60 * 1000\<close> ms); \<open>hasValidToken\<close> applies the same test to
  the record stored for the user and is false when none is stored; a record obtained
  31 days ago is invalid for both.
\<close>

theorem token_valid_iff_younger_than_30_days:
  "isTokenValid now r = (now - obtained_at r < 30 * 24 * 60 * 60 * 1000)
   \<and> hasValidToken store now userId =
       (case store userId of
          None \<Rightarrow> False
        | Some r' \<Rightarrow> now - obtained_at r' < 30 * 24 * 60 * 60 * 1000)
   \<and> isTokenValid now (r\<lparr>obtained_at := now - 31 * 24 * 60 * 60 * 1000\<rparr>) = False
   \<and> hasValidToken (storeToken store userId (r\<lparr>obtained_at := now - 31 * 24 * 60 * 60 * 1000\<rparr>))
         now userId = False
   \<and> hasValidToken (removeToken store userId) now userId = False"
  by (auto simp: isTokenValid_def hasValidToken_def getStoredToken_def storeToken_def
        removeToken_def Let_def split: option.splits)

subsection \<open>Shape dispatch of the single-item formatter\<close>

lemma truthy_number_is_object:
  "truthy (propOf item ''number'') \<Longrightarrow> truthy item \<and> typeof item = ''object''"
  by (cases item) (auto simp: truthy_def propOf_def typeof_def)

lemma issueFormat_prefix:
  "issueFormat P item = Some s \<Longrightarrow> take 3 s = ''**#''"
  unfolding issueFormat_def by (auto simp: bind_eq_Some_conv)

lemma pullRequestFormat_prefix:
  "pullRequestFormat P item = Some s \<Longrightarrow> take 3 s = ''**P''"
  unfolding pullRequestFormat_def by (auto simp: bind_eq_Some_conv)

text \<open>
  Claim C1 says that a payload with truthy \<^verbatim>\<open>number\<close>, \<^verbatim>\<open>title\<close> and \<^verbatim>\<open>head\<close> is rendered
  with the pull-request template. The code tests \<^verbatim>\<open>item.number && item.title\<close> for the
  issue template first, so every such payload is rendered with the issue template,
  and its text is never the text of the pull-request template (which starts with
  \<^verbatim>\<open>**PR #\<close> and holds the branch line): the third branch of \<^verbatim>\<open>formatSingleItem\<close> is
  unreachable.
\<close>

theorem pull_request_payload_rendered_as_issue:
  assumes "truthy (propOf item ''number'')" and "truthy (propOf item ''title'')"
    and "truthy (propOf item ''head'')"
  shows "formatSingleItem P item = issueFormat P item
         \<and> (\<forall>s. formatSingleItem P item = Some s \<longrightarrow> pullRequestFormat P item \<noteq> Some s)"
proof -
  have obj: "truthy item \<and> typeof item = ''object''"
    using assms(1) by (rule truthy_number_is_object)
  have eq: "formatSingleItem P item = issueFormat P item"
    using obj assms by (simp add: formatSingleItem_def)
  have "pullRequestFormat P item \<noteq> Some s" if "formatSingleItem P item = Some s" for s
  proof
    assume pr: "pullRequestFormat P item = Some s"
    from that eq have "take 3 s = ''**#''" by (simp add: issueFormat_prefix)
    moreover from pr have "take 3 s = ''**P''" by (rule pullRequestFormat_prefix)
    ultimately show False by simp
  qed
  with eq show ?thesis by blast
qed

text \<open>
  The payload \<open>prPayload\<close> satisfies the three hypotheses. The code returns the issue
  text for it; the pull-request template would have given the second text. Neither
  reads the platform.
\<close>

theorem pull_request_payload_rendered_as_issue_witness:
  "truthy (propOf prPayload ''number'') \<and> truthy (propOf prPayload ''title'')
   \<and> truthy (propOf prPayload ''head'')
   \<and> formatSingleItem examplePlatform prPayload = issueFormat examplePlatform prPayload
   \<and> formatSingleItem examplePlatform prPayload
       = Some ''**#7: Add parser**\<newline>Status: open\<newline>''
   \<and> pullRequestFormat examplePlatform prPayload
       = Some (''**PR #7: Add parser**\<newline>Status: open\<newline>feature ''
               @ sym_arrow @ '' main\<newline>'')"
proof -
  have h1: "truthy (propOf prPayload ''number'')"
    by (simp add: prPayload_def truthy_def propOf_def)
  have h2: "truthy (propOf prPayload ''title'')"
    by (simp add: prPayload_def truthy_def propOf_def)
  have h3: "truthy (propOf prPayload ''head'')"
    by (simp add: prPayload_def truthy_def propOf_def)
  have e: "formatSingleItem examplePlatform prPayload = issueFormat examplePlatform prPayload"
    using pull_request_payload_rendered_as_issue [OF h1 h2 h3, of examplePlatform] by simp
  have i: "issueFormat examplePlatform prPayload
             = Some ''**#7: Add parser**\<newline>Status: open\<newline>''"
    by (simp add: issueFormat_def prPayload_def truthy_def propOf_def part_def
          showInt_def showNat.simps)
  have p: "pullRequestFormat examplePlatform prPayload
             = Some (''**PR #7: Add parser**\<newline>Status: open\<newline>feature ''
                     @ sym_arrow @ '' main\<newline>'')"
    by (simp add: pullRequestFormat_def prPayload_def truthy_def propOf_def part_def
          showInt_def showNat.simps)
  from h1 h2 h3 e i p show ?thesis by simp
qed

subsection \<open>Arrays in the service's formatter\<close>


lemma numbered_map:
  "numbered k ss =
     map (\<lambda>i. ''**Item '' @ showNat (k + i + 1) @ '':**\<newline>'' @ ss ! i) [0..<length ss]"
proof (induction ss arbitrary: k)
  case Nil
  then show ?case by simp
next
  case (Cons s ss)
  have "[0..<length (s # ss)] = 0 # map Suc [0..<length ss]"
    by (simp add: upt_conv_Cons map_Suc_upt del: upt_Suc)
  then show ?case using Cons.IH [of "k + 1"] by (simp add: comp_def)
qed

lemma mapM_length: "mapM f xs = Some ys \<Longrightarrow> length ys = length xs"
  by (induction xs arbitrary: ys) (auto simp: bind_eq_Some_conv)

lemma mapM_nth: "mapM f xs = Some ys \<Longrightarrow> i < length xs \<Longrightarrow> f (xs ! i) = Some (ys ! i)"
proof (induction xs arbitrary: ys i)
  case Nil
  then show ?case by simp
next
  case (Cons x xs)
  then show ?case by (cases i) (auto simp: bind_eq_Some_conv)
qed

lemma array_no_content: "propOf (JArr xs) ''content'' = JUndefined"
  by (simp add: propOf_def)

lemma formatToolResult_try_singleton:
  "formatToolResult_try P tool (JArr [x]) = formatSingleItem P x"
  by (simp add: formatToolResult_try_def array_no_content truthy_def typeof_def isArray_def elems_def)

lemma formatToolResult_try_direct:
  assumes "\<not> isArray x"
    and "\<not> (truthy (propOf x ''content'') \<and> isArray (propOf x ''content''))"
  shows "formatToolResult_try P tool x = formatSingleItem P x"
  using assms
  by (cases x) (auto simp: formatToolResult_try_def formatSingleItem_def typeof_def isArray_def truthy_def)

lemma formatToolResult_try_many:
  assumes "2 \<le> length xs"
  shows "formatToolResult_try P tool (JArr xs) =
     do { rendered \<leftarrow> mapM (formatSingleItem P) xs;
          Some (join ''\<newline>\<newline>'' (numbered 0 rendered)) }"
  using assms
  by (cases xs) (auto simp: formatToolResult_try_def array_no_content truthy_def typeof_def
        isArray_def elems_def)

text \<open>
  Claim C2, as amended. An array of length 1 is rendered by \<^verbatim>\<open>formatSingleItem\<close> on
  its element, without an item prefix, when that call does not throw; the text is
  also what \<^verbatim>\<open>formatToolResult\<close> returns for the element itself, provided the element
  is not an array and has no truthy \<^verbatim>\<open>content\<close> array (those two shapes are dispatched
  before \<^verbatim>\<open>formatSingleItem\<close> when the element is passed directly). An array of
  length 2 or more whose elements all render without throwing gives the renderings,
  each after a line \<^verbatim>\<open>**Item N:**\<close> with its 1-based index, joined by blank lines.
\<close>

theorem formatToolResult_array:
  "(formatSingleItem P x = Some s \<longrightarrow>
      formatToolResult P tool (JArr [x]) = Some s
      \<and> (\<not> isArray x \<and> \<not> (truthy (propOf x ''content'') \<and> isArray (propOf x ''content''))
           \<longrightarrow> formatToolResult P tool x = Some s))
   \<and> (2 \<le> length xs \<and> mapM (formatSingleItem P) xs = Some ss \<longrightarrow>
        length ss = length xs
        \<and> (\<forall>i < length xs. formatSingleItem P (xs ! i) = Some (ss ! i))
        \<and> formatToolResult P tool (JArr xs) =
            Some (join ''\<newline>\<newline>''
              (map (\<lambda>i. ''**Item '' @ showNat (i + 1) @ '':**\<newline>'' @ ss ! i) [0..<length xs])))"
proof (intro conjI impI)
  assume s: "formatSingleItem P x = Some s"
  then show "formatToolResult P tool (JArr [x]) = Some s"
    by (simp add: formatToolResult_def formatToolResult_try_singleton)
  assume "\<not> isArray x \<and> \<not> (truthy (propOf x ''content'') \<and> isArray (propOf x ''content''))"
  then have "formatToolResult_try P tool x = formatSingleItem P x"
    by (simp add: formatToolResult_try_direct)
  with s show "formatToolResult P tool x = Some s"
    by (simp add: formatToolResult_def)
next
  assume h: "2 \<le> length xs \<and> mapM (formatSingleItem P) xs = Some ss"
  then show len: "length ss = length xs" by (auto dest: mapM_length)
  from h show "\<forall>i < length xs. formatSingleItem P (xs ! i) = Some (ss ! i)"
    by (auto dest: mapM_nth)
  from h len show "formatToolResult P tool (JArr xs) =
            Some (join ''\<newline>\<newline>''
              (map (\<lambda>i. ''**Item '' @ showNat (i + 1) @ '':**\<newline>'' @ ss ! i) [0..<length xs]))"
    by (simp add: formatToolResult_def formatToolResult_try_many numbered_map)
qed

text \<open>
  The claim as stated fails for the envelope \<^verbatim>\<open>{content: [{type: "text", text: "hi"}]}\<close>:
  passed directly it is read as a protocol envelope, inside an array of length 1 it is
  dumped as key and value. And an array of two elements one of which makes
  \<^verbatim>\<open>formatSingleItem\<close> throw is not rendered as numbered items: the \<^verbatim>\<open>catch\<close> returns
  the raw JSON text of the whole array.
\<close>

theorem formatToolResult_array_counterexample:
  "formatToolResult examplePlatform ''search'' (JArr [envelope]) = Some ''content: [object Object]''
   \<and> formatToolResult examplePlatform ''search'' envelope = Some ''hi''
   \<and> formatToolResult examplePlatform ''search'' (JArr [badIssue, JStr ''b''])
       = Some (''Raw result: '' @ JSON_stringify2 examplePlatform (JArr [badIssue, JStr ''b'']))"
proof -
  have a: "formatToolResult examplePlatform ''search'' (JArr [envelope])
             = Some ''content: [object Object]''"
    by (simp add: formatToolResult_def formatToolResult_try_def formatSingleItem_def
          keyValueFormat_def entries_def elems_def envelope_def propOf_def truthy_def
          typeof_def isArray_def)
  have b: "formatToolResult examplePlatform ''search'' envelope = Some ''hi''"
    by (simp add: formatToolResult_def formatToolResult_try_def contentItem_def getProp_def
          nullish_def elems_def envelope_def propOf_def truthy_def isArray_def)
  have "formatSingleItem examplePlatform badIssue = None"
    by (simp add: formatSingleItem_def issueFormat_def part_def above_def toPrimitive_def
          badIssue_def propOf_def truthy_def typeof_def showInt_def showNat.simps)
  then have c: "formatToolResult examplePlatform ''search'' (JArr [badIssue, JStr ''b''])
       = Some (''Raw result: '' @ JSON_stringify2 examplePlatform (JArr [badIssue, JStr ''b'']))"
    by (simp add: formatToolResult_def formatToolResult_try_def elems_def propOf_def
          truthy_def typeof_def isArray_def)
  from a b c show ?thesis by simp
qed

text \<open>
  Both parts at concrete inputs: the payload \<open>prPayload\<close> alone, and an array of three
  elements. The texts do not read the platform.
\<close>

theorem formatToolResult_array_witness:
  "formatSingleItem examplePlatform prPayload
     = Some ''**#7: Add parser**\<newline>Status: open\<newline>''
   \<and> formatToolResult examplePlatform ''search'' (JArr [prPayload])
     = Some ''**#7: Add parser**\<newline>Status: open\<newline>''
   \<and> formatToolResult examplePlatform ''search'' prPayload
     = Some ''**#7: Add parser**\<newline>Status: open\<newline>''
   \<and> mapM (formatSingleItem examplePlatform) [JStr ''a'', JNum 12, prPayload]
     = Some [''a'', ''12'', ''**#7: Add parser**\<newline>Status: open\<newline>'']
   \<and> formatToolResult examplePlatform ''search'' (JArr [JStr ''a'', JNum 12, prPayload])
     = Some (''**Item 1:**\<newline>a\<newline>\<newline>**Item 2:**\<newline>12\<newline>\<newline>''
             @ ''**Item 3:**\<newline>**#7: Add parser**\<newline>Status: open\<newline>'')"
proof -
  have one: "formatSingleItem examplePlatform prPayload
               = Some ''**#7: Add parser**\<newline>Status: open\<newline>''"
    by (simp add: formatSingleItem_def issueFormat_def prPayload_def truthy_def typeof_def
          propOf_def part_def showInt_def showNat.simps)
  have shape: "\<not> isArray prPayload
      \<and> \<not> (truthy (propOf prPayload ''content'') \<and> isArray (propOf prPayload ''content''))"
    by (simp add: prPayload_def isArray_def propOf_def truthy_def)
  have many: "2 \<le> length [JStr ''a'', JNum 12, prPayload]
      \<and> mapM (formatSingleItem examplePlatform) [JStr ''a'', JNum 12, prPayload]
          = Some [''a'', ''12'', ''**#7: Add parser**\<newline>Status: open\<newline>'']"
    using one by (simp add: formatSingleItem_def truthy_def typeof_def showInt_def showNat.simps)
  have idx: "[0..<length [JStr ''a'', JNum 12, prPayload]] = [0, 1, 2]"
    by (simp add: upt_rec)
  from one shape many
    formatToolResult_array [of examplePlatform prPayload
      "''**#7: Add parser**\<newline>Status: open\<newline>''" "''search''"
      "[JStr ''a'', JNum 12, prPayload]"
      "[''a'', ''12'', ''**#7: Add parser**\<newline>Status: open\<newline>'']"]
  show ?thesis unfolding idx by (simp add: showNat.simps)
qed

subsection \<open>Totality of result formatting\<close>

lemma service_null: "formatToolResult P tool JNull = Some ''null''"
  by (simp add: formatToolResult_def formatToolResult_try_def formatSingleItem_def
        propOf_def truthy_def typeof_def isArray_def)

lemma service_empty: "formatToolResult P tool (JArr []) = Some ''No results found.''"
  by (simp add: formatToolResult_def formatToolResult_try_def
        propOf_def truthy_def typeof_def isArray_def elems_def)

lemma service_nested: "formatToolResult P tool nestedObject = Some ''a: [object Object]''"
  by (simp add: formatToolResult_def formatToolResult_try_def formatSingleItem_def
        keyValueFormat_def entries_def nestedObject_def
        propOf_def truthy_def typeof_def isArray_def)

lemma service_partial:
  "formatToolResult P tool partialIssue
     = Some ''**#5: Crash on start**\<newline>Status: open\<newline>''"
  by (simp add: formatToolResult_def formatToolResult_try_def formatSingleItem_def
        issueFormat_def part_def partialIssue_def showInt_def showNat.simps
        propOf_def truthy_def typeof_def isArray_def)

lemma static_null:
  "formatToolResult_static P ''github_issue_get'' JNull = Some ''Could not retrieve issue.''"
  by (simp add: formatToolResult_static_def formatToolResult_static_try_def
        formatSingleIssue_def truthy_def)

lemma static_empty:
  "formatToolResult_static P ''github_issues_list'' (JArr [])
     = Some (sym_bug @ '' **Issues** (showing 0):\<newline>\<newline>'')"
  by (simp add: formatToolResult_static_def formatToolResult_static_try_def
        formatIssuesList_def truthy_def isArray_def elems_def showingOf_def showNat.simps)

lemma static_nested:
  "formatToolResult_static P ''github_user_get'' nestedObject
     = Some (sym_person @ '' **GitHub Profile**\<newline>\<newline>**undefined**\<newline>@undefined\<newline>No bio\<newline>\<newline>''
             @ sym_pin @ '' Location not specified\<newline>''
             @ sym_chart @ '' 0 public repos '' @ sym_bullet @ '' 0 followers ''
             @ sym_bullet @ '' 0 following\<newline>'' @ sym_link @ '' undefined'')"
  by (simp add: formatToolResult_static_def formatToolResult_static_try_def
        formatUserProfile_def orElse_def nestedObject_def propOf_def truthy_def)

lemma static_partial:
  "formatToolResult_static P ''github_issue_get'' partialIssue
     = Some (sym_bug @ '' **Issue #5**\<newline>\<newline>**Crash on start**\<newline>\<newline>''
             @ sym_memo @ '' **Description:**\<newline>No description provided\<newline>\<newline>''
             @ sym_person @ '' **Author:** undefined\<newline>''
             @ sym_chart @ '' **State:** open\<newline>''
             @ sym_calendar @ '' **Created:** '' @ toLocaleDateString P JUndefined @ ''\<newline>''
             @ sym_cycle @ '' **Updated:** '' @ toLocaleDateString P JUndefined @ ''\<newline>''
             @ ''\<newline>'' @ sym_link @ '' [View on GitHub](undefined)'')"
  by (simp add: formatToolResult_static_def formatToolResult_static_try_def
        formatSingleIssue_def orElse_def nonEmptyList_def part_def localeDate_def
        toPrimitive_def partialIssue_def showInt_def showNat.simps propOf_def truthy_def)

text \<open>
  Claim C6. Both formatters return a string for every JSON value and never throw:
  the body of each is a \<^verbatim>\<open>try\<close> block, and when it throws the \<^verbatim>\<open>catch\<close> returns the raw
  JSON text of the result. In particular \<^verbatim>\<open>null\<close>, the empty array, a nested object
  and an issue without \<^verbatim>\<open>user\<close> are rendered as stated, by the service's formatter
  under any tool name and by the parser's formatter under the tool names given.
\<close>

theorem result_formatting_never_throws:
  "(\<exists>s. formatToolResult P tool result = Some s)
   \<and> (\<exists>s. formatToolResult_static P tool result = Some s)
   \<and> (formatToolResult_try P tool result = None \<longrightarrow>
        formatToolResult P tool result
          = Some (''Raw result: '' @ JSON_stringify2 P result))
   \<and> (formatToolResult_static_try P tool result = None \<longrightarrow>
        formatToolResult_static P tool result
          = Some (sym_warning @ '' Tool '' @ [CHR 0x27] @ tool @ [CHR 0x27]
                  @ '' completed but result formatting failed: '' @ JSON_stringify P result))
   \<and> formatToolResult P tool JNull = Some ''null''
   \<and> formatToolResult P tool (JArr []) = Some ''No results found.''
   \<and> formatToolResult P tool nestedObject = Some ''a: [object Object]''
   \<and> formatToolResult P tool partialIssue
        = Some ''**#5: Crash on start**\<newline>Status: open\<newline>''
   \<and> formatToolResult_static P ''github_issue_get'' JNull = Some ''Could not retrieve issue.''
   \<and> formatToolResult_static P ''github_issues_list'' (JArr [])
        = Some (sym_bug @ '' **Issues** (showing 0):\<newline>\<newline>'')
   \<and> formatToolResult_static P ''github_user_get'' nestedObject
        = Some (sym_person @ '' **GitHub Profile**\<newline>\<newline>**undefined**\<newline>@undefined\<newline>No bio\<newline>\<newline>''
             @ sym_pin @ '' Location not specified\<newline>''
             @ sym_chart @ '' 0 public repos '' @ sym_bullet @ '' 0 followers ''
             @ sym_bullet @ '' 0 following\<newline>'' @ sym_link @ '' undefined'')
   \<and> formatToolResult_static P ''github_issue_get'' partialIssue
        = Some (sym_bug @ '' **Issue #5**\<newline>\<newline>**Crash on start**\<newline>\<newline>''
             @ sym_memo @ '' **Description:**\<newline>No description provided\<newline>\<newline>''
             @ sym_person @ '' **Author:** undefined\<newline>''
             @ sym_chart @ '' **State:** open\<newline>''
             @ sym_calendar @ '' **Created:** '' @ toLocaleDateString P JUndefined @ ''\<newline>''
             @ sym_cycle @ '' **Updated:** '' @ toLocaleDateString P JUndefined @ ''\<newline>''
             @ ''\<newline>'' @ sym_link @ '' [View on GitHub](undefined)'')"
proof -
  have a: "\<exists>s. formatToolResult P tool result = Some s"
    by (simp add: formatToolResult_def split: option.split)
  have b: "\<exists>s. formatToolResult_static P tool result = Some s"
    by (simp add: formatToolResult_static_def split: option.split)
  have c: "formatToolResult_try P tool result = None \<longrightarrow>
        formatToolResult P tool result
          = Some (''Raw result: '' @ JSON_stringify2 P result)"
    by (simp add: formatToolResult_def)
  have d: "formatToolResult_static_try P tool result = None \<longrightarrow>
        formatToolResult_static P tool result
          = Some (sym_warning @ '' Tool '' @ [CHR 0x27] @ tool @ [CHR 0x27]
                  @ '' completed but result formatting failed: '' @ JSON_stringify P result)"
    by (simp add: formatToolResult_static_def)
  show ?thesis
    by (intro conjI a b c d service_null service_empty service_nested service_partial
          static_null static_empty static_nested static_partial)
qed

text \<open>
  Two results on which the \<^verbatim>\<open>try\<close> block throws (an item of the envelope, and a
  repository, is \<^verbatim>\<open>null\<close>): the formatters return the raw JSON text.
\<close>

theorem result_formatting_never_throws_witness:
  "formatToolResult_try examplePlatform ''search'' brokenEnvelope = None
   \<and> formatToolResult examplePlatform ''search'' brokenEnvelope
       = Some (''Raw result: '' @ JSON_stringify2 examplePlatform brokenEnvelope)
   \<and> formatToolResult_static_try examplePlatform ''github_repo_list'' (JArr [JNull]) = None
   \<and> formatToolResult_static examplePlatform ''github_repo_list'' (JArr [JNull])
       = Some (sym_warning @ '' Tool '' @ [CHR 0x27] @ ''github_repo_list'' @ [CHR 0x27]
               @ '' completed but result formatting failed: ''
               @ JSON_stringify examplePlatform (JArr [JNull]))"
proof -
  have t1: "formatToolResult_try examplePlatform ''search'' brokenEnvelope = None"
    by (simp add: formatToolResult_try_def contentItem_def getProp_def nullish_def
          brokenEnvelope_def propOf_def truthy_def isArray_def elems_def)
  have t2: "formatToolResult_static_try examplePlatform ''github_repo_list'' (JArr [JNull]) = None"
    by (simp add: formatToolResult_static_try_def formatRepoList_def repoEntry_def nullish_def
          truthy_def isArray_def elems_def)
  from t1 t2
    result_formatting_never_throws [of examplePlatform "''search''" brokenEnvelope]
    result_formatting_never_throws [of examplePlatform "''github_repo_list''" "JArr [JNull]"]
  show ?thesis by blast
qed

subsection \<open>Intent parser\<close>

text \<open>
  Claim C5. The message \<^verbatim>\<open>Show issue #68 in octocat/hello-world\<close> resolves to exactly
  one invocation, of the tool \<^verbatim>\<open>github_issue_get\<close> with owner \<^verbatim>\<open>octocat\<close>, repository
  \<^verbatim>\<open>hello-world\<close> and issue number 68, whatever the environment holds.
\<close>

theorem parseUserIntent_show_issue_68:
  "parseUserIntent E ''Show issue #68 in octocat/hello-world'' =
     [\<lparr>toolName = ''github_issue_get'',
       arguments = [(''owner'', JStr ''octocat''), (''repo'', JStr ''hello-world''),
                    (''issue_number'', JNum 68)],
       description = ''Getting issue #68 from octocat/hello-world''\<rparr>]"
  by code_simp

text \<open>
  Claim C10. For \<^verbatim>\<open>show issue #0 in octocat/hello-world\<close> the single-issue category
  is triggered, the issue number is extracted as 0 and the repository reference as
  \<^verbatim>\<open>octocat/hello-world\<close>, and yet no invocation is returned: the number 0 fails the
  test \<^verbatim>\<open>issueNumber && repo\<close>. The same message with \<^verbatim>\<open>#1\<close> yields the invocation.
\<close>

theorem parseUserIntent_issue_number_zero_dropped:
  "parseUserIntent E ''show issue #0 in octocat/hello-world'' = []
   \<and> matchesPattern ''show issue #0 in octocat/hello-world''
        [''issue #'', ''issue number'', ''show issue'', ''get issue'']
   \<and> extractIssueNumber ''show issue #0 in octocat/hello-world'' = Some 0
   \<and> extractRepoReference E ''show issue #0 in octocat/hello-world''
        = Some (''octocat'', ''hello-world'')
   \<and> parseUserIntent E ''show issue #1 in octocat/hello-world'' =
        [\<lparr>toolName = ''github_issue_get'',
          arguments = [(''owner'', JStr ''octocat''), (''repo'', JStr ''hello-world''),
                       (''issue_number'', JNum 1)],
          description = ''Getting issue #1 from octocat/hello-world''\<rparr>]"
proof -
  have a: "parseUserIntent E ''show issue #0 in octocat/hello-world'' = []"
    by code_simp
  have b: "matchesPattern ''show issue #0 in octocat/hello-world''
             [''issue #'', ''issue number'', ''show issue'', ''get issue'']"
    by code_simp
  have c: "extractIssueNumber ''show issue #0 in octocat/hello-world'' = Some 0"
    by code_simp
  have d: "extractRepoReference E ''show issue #0 in octocat/hello-world''
             = Some (''octocat'', ''hello-world'')"
    by code_simp
  have e: "parseUserIntent E ''show issue #1 in octocat/hello-world'' =
        [\<lparr>toolName = ''github_issue_get'',
          arguments = [(''owner'', JStr ''octocat''), (''repo'', JStr ''hello-world''),
                       (''issue_number'', JNum 1)],
          description = ''Getting issue #1 from octocat/hello-world''\<rparr>]"
    by code_simp
  from a b c d e show ?thesis by blast
qed

subsection \<open>Requests that match nothing\<close>

text \<open>
  Claim C7. When the request meets none of the three keyword conditions of the
  handler's resolver and no tool of the catalog shares a name token with it, the
  decision has an empty list of tool calls, \<^verbatim>\<open>needsMoreInfo\<close> is true and \<^verbatim>\<open>missingInfo\<close>
  says what is missing. Likewise \<^verbatim>\<open>parseUserIntent\<close> returns the empty list for a
  message that holds none of its trigger substrings.
\<close>

theorem unmatched_request_needs_more_information:
  "(\<not> (includes_str (toLowerCase userRequest) ''issue''
         \<and> includes_str (toLowerCase userRequest) ''#'')
    \<and> \<not> (includes_str (toLowerCase userRequest) ''available''
         \<and> includes_str (toLowerCase userRequest) ''tool'')
    \<and> \<not> (includes_str (toLowerCase userRequest) ''list''
         \<and> includes_str (toLowerCase userRequest) ''repo'')
    \<and> \<not> list_ex (sharesToken (toLowerCase userRequest)) tools
    \<longrightarrow> resolveIntent E tools userRequest =
          \<lparr>toolCalls = [], needsMoreInfo = True,
           missingInfo = Some (''I need more specific information about what ''
                               @ ''GitHub operation you want to perform.'')\<rparr>)
   \<and> (\<not> matchesPattern (trim (toLowerCase message)) intentTriggers
        \<longrightarrow> parseUserIntent E message = [])"
proof (intro conjI impI)
  assume h: "\<not> (includes_str (toLowerCase userRequest) ''issue''
         \<and> includes_str (toLowerCase userRequest) ''#'')
    \<and> \<not> (includes_str (toLowerCase userRequest) ''available''
         \<and> includes_str (toLowerCase userRequest) ''tool'')
    \<and> \<not> (includes_str (toLowerCase userRequest) ''list''
         \<and> includes_str (toLowerCase userRequest) ''repo'')
    \<and> \<not> list_ex (sharesToken (toLowerCase userRequest)) tools"
  then have "find (sharesToken (toLowerCase userRequest)) tools = None"
    by (simp add: find_None_iff list_ex_iff)
  with h show "resolveIntent E tools userRequest =
          \<lparr>toolCalls = [], needsMoreInfo = True,
           missingInfo = Some (''I need more specific information about what ''
                               @ ''GitHub operation you want to perform.'')\<rparr>"
    by (auto simp: resolveIntent_def Let_def)
next
  assume "\<not> matchesPattern (trim (toLowerCase message)) intentTriggers"
  then show "parseUserIntent E message = []"
    by (simp add: matchesPattern_def intentTriggers_def parseUserIntent_def Let_def)
qed

text \<open>
  The request \<^verbatim>\<open>What is MCP?\<close> with the catalog \<^verbatim>\<open>get_issue\<close>, \<^verbatim>\<open>list_repos\<close> meets the
  hypotheses of both parts.
\<close>

theorem unmatched_request_needs_more_information_witness:
  "resolveIntent noDefaults sampleCatalog ''What is MCP?'' =
     \<lparr>toolCalls = [], needsMoreInfo = True,
      missingInfo = Some (''I need more specific information about what ''
                          @ ''GitHub operation you want to perform.'')\<rparr>
   \<and> parseUserIntent noDefaults ''What is MCP?'' = []"
proof -
  have a: "\<not> (includes_str (toLowerCase ''What is MCP?'') ''issue''
         \<and> includes_str (toLowerCase ''What is MCP?'') ''#'')
    \<and> \<not> (includes_str (toLowerCase ''What is MCP?'') ''available''
         \<and> includes_str (toLowerCase ''What is MCP?'') ''tool'')
    \<and> \<not> (includes_str (toLowerCase ''What is MCP?'') ''list''
         \<and> includes_str (toLowerCase ''What is MCP?'') ''repo'')
    \<and> \<not> list_ex (sharesToken (toLowerCase ''What is MCP?'')) sampleCatalog"
    by code_simp
  have b: "\<not> matchesPattern (trim (toLowerCase ''What is MCP?'')) intentTriggers"
    by code_simp
  from a b unmatched_request_needs_more_information [of "''What is MCP?''" sampleCatalog noDefaults "''What is MCP?''"]
  show ?thesis by blast
qed

subsection \<open>Tool execution loop\<close>

lemma formatToolResult_total: "\<exists>s. formatToolResult P tool result = Some s"
  by (simp add: formatToolResult_def split: option.split)

lemma callTool_connected:
  assumes "connected c"
  shows "callTool S c tname args =
     (case sdk_callTool S tname args (world c) of
        (Inr r, w) \<Rightarrow> (Inr r, c\<lparr>world := w, issued := issued c @ [CallTool tname args]\<rparr>)
      | (Inl e, w) \<Rightarrow>
          (Inl (Error (''Failed to call tool '' @ [CHR 0x27] @ tname @ [CHR 0x27] @ '': ''
                       @ errorMessage e)),
           c\<lparr>world := w, issued := issued c @ [CallTool tname args]\<rparr>))"
  using assms by (simp add: callTool_def ensureConnected_def)

lemma executeTool_success:
  assumes "connected (mcpClient svc)"
    and "sdk_callTool S tname args (world (mcpClient svc)) = (Inr d, w)"
  shows "executeTool P S svc tname args =
     (\<lparr>success = True, data = Some d, error = None, toolName_result = tname,
       formattedResult = formatToolResult P tname d\<rparr>,
      svc\<lparr>mcpClient := (mcpClient svc)\<lparr>world := w,
            issued := issued (mcpClient svc) @ [CallTool tname args]\<rparr>\<rparr>)"
proof -
  obtain s where "formatToolResult P tname d = Some s"
    using formatToolResult_total by blast
  with assms show ?thesis
    by (simp add: executeTool_def callTool_connected)
qed

lemma executeTool_failure:
  assumes "connected (mcpClient svc)"
    and "sdk_callTool S tname args (world (mcpClient svc)) = (Inl e, w)"
  shows "executeTool P S svc tname args =
     (\<lparr>success = False, data = None,
       error = Some (''Failed to call tool '' @ [CHR 0x27] @ tname @ [CHR 0x27] @ '': ''
                     @ errorMessage e),
       toolName_result = tname, formattedResult = None\<rparr>,
      svc\<lparr>mcpClient := (mcpClient svc)\<lparr>world := w,
            issued := issued (mcpClient svc) @ [CallTool tname args]\<rparr>\<rparr>)"
  using assms by (simp add: executeTool_def callTool_connected errorMessage_def)

text \<open>
  Claim C3. On a connected client (the handler runs the loop after \<^verbatim>\<open>initialize\<close>),
  let the underlying call of the first and of the third invocation return data and
  that of the second throw. Then the loop returns three results in the order of the
  invocations; the first and the third have \<^verbatim>\<open>success: true\<close> with the data and its
  formatted text, the second is the only one with \<^verbatim>\<open>success: false\<close> and carries its tool
  name and the error message; and the three calls were issued to the SDK, in order.
\<close>

theorem batch_with_failing_second_call:
  assumes "connected (mcpClient svc)"
    and "sdk_callTool S (toolName_call c1) (parameters c1) (world (mcpClient svc)) = (Inr d1, w1)"
    and "sdk_callTool S (toolName_call c2) (parameters c2) w1 = (Inl e, w2)"
    and "sdk_callTool S (toolName_call c3) (parameters c3) w2 = (Inr d3, w3)"
  shows "map success (fst (executeToolCalls P S svc [c1, c2, c3])) = [True, False, True]
   \<and> map toolName_result (fst (executeToolCalls P S svc [c1, c2, c3]))
       = map toolName_call [c1, c2, c3]
   \<and> map error (fst (executeToolCalls P S svc [c1, c2, c3]))
       = [None,
          Some (''Failed to call tool '' @ [CHR 0x27] @ toolName_call c2 @ [CHR 0x27] @ '': ''
                @ errorMessage e),
          None]
   \<and> map data (fst (executeToolCalls P S svc [c1, c2, c3])) = [Some d1, None, Some d3]
   \<and> map formattedResult (fst (executeToolCalls P S svc [c1, c2, c3]))
       = [formatToolResult P (toolName_call c1) d1, None,
          formatToolResult P (toolName_call c3) d3]
   \<and> length (filter (\<lambda>r. \<not> success r) (fst (executeToolCalls P S svc [c1, c2, c3]))) = 1
   \<and> issued (mcpClient (snd (executeToolCalls P S svc [c1, c2, c3])))
       = issued (mcpClient svc)
         @ [CallTool (toolName_call c1) (parameters c1),
            CallTool (toolName_call c2) (parameters c2),
            CallTool (toolName_call c3) (parameters c3)]
   \<and> world (mcpClient (snd (executeToolCalls P S svc [c1, c2, c3]))) = w3"
proof -
  define svc1 where "svc1 = svc\<lparr>mcpClient := (mcpClient svc)\<lparr>world := w1,
      issued := issued (mcpClient svc) @ [CallTool (toolName_call c1) (parameters c1)]\<rparr>\<rparr>"
  define svc2 where "svc2 = svc1\<lparr>mcpClient := (mcpClient svc1)\<lparr>world := w2,
      issued := issued (mcpClient svc1) @ [CallTool (toolName_call c2) (parameters c2)]\<rparr>\<rparr>"
  define svc3 where "svc3 = svc2\<lparr>mcpClient := (mcpClient svc2)\<lparr>world := w3,
      issued := issued (mcpClient svc2) @ [CallTool (toolName_call c3) (parameters c3)]\<rparr>\<rparr>"
  have e1: "executeTool P S svc (toolName_call c1) (parameters c1) =
     (\<lparr>success = True, data = Some d1, error = None, toolName_result = toolName_call c1,
       formattedResult = formatToolResult P (toolName_call c1) d1\<rparr>, svc1)"
    using assms(1,2) unfolding svc1_def by (rule executeTool_success)
  have k1: "connected (mcpClient svc1)" "world (mcpClient svc1) = w1"
    using assms(1) by (simp_all add: svc1_def)
  have e2: "executeTool P S svc1 (toolName_call c2) (parameters c2) =
     (\<lparr>success = False, data = None,
       error = Some (''Failed to call tool '' @ [CHR 0x27] @ toolName_call c2 @ [CHR 0x27]
                     @ '': '' @ errorMessage e),
       toolName_result = toolName_call c2, formattedResult = None\<rparr>, svc2)"
    unfolding svc2_def using k1 assms(3) by (intro executeTool_failure) simp_all
  have k2: "connected (mcpClient svc2)" "world (mcpClient svc2) = w2"
    using k1 by (simp_all add: svc2_def)
  have e3: "executeTool P S svc2 (toolName_call c3) (parameters c3) =
     (\<lparr>success = True, data = Some d3, error = None, toolName_result = toolName_call c3,
       formattedResult = formatToolResult P (toolName_call c3) d3\<rparr>, svc3)"
    unfolding svc3_def using k2 assms(4) by (intro executeTool_success) simp_all
  have run: "executeToolCalls P S svc [c1, c2, c3] =
     ([\<lparr>success = True, data = Some d1, error = None, toolName_result = toolName_call c1,
         formattedResult = formatToolResult P (toolName_call c1) d1\<rparr>,
       \<lparr>success = False, data = None,
         error = Some (''Failed to call tool '' @ [CHR 0x27] @ toolName_call c2 @ [CHR 0x27]
                       @ '': '' @ errorMessage e),
         toolName_result = toolName_call c2, formattedResult = None\<rparr>,
       \<lparr>success = True, data = Some d3, error = None, toolName_result = toolName_call c3,
         formattedResult = formatToolResult P (toolName_call c3) d3\<rparr>], svc3)"
    by (simp add: e1 e2 e3)
  show ?thesis
    unfolding run by (simp add: svc3_def svc2_def svc1_def)
qed

text \<open>
  The batch \<open>threeCalls\<close> on the client whose second tool call fails. The formatted
  texts do not read the platform.
\<close>

theorem batch_with_failing_second_call_witness:
  "map success (fst (executeToolCalls examplePlatform flakySdk connectedService threeCalls))
     = [True, False, True]
   \<and> map toolName_result (fst (executeToolCalls examplePlatform flakySdk connectedService threeCalls))
     = [''list_repos'', ''get_issue'', ''get_issue'']
   \<and> map error (fst (executeToolCalls examplePlatform flakySdk connectedService threeCalls))
     = [None, Some (''Failed to call tool '' @ [CHR 0x27] @ ''get_issue'' @ [CHR 0x27]
                    @ '': rate limit exceeded''), None]
   \<and> map formattedResult (fst (executeToolCalls examplePlatform flakySdk connectedService threeCalls))
     = [Some ''done'', None, Some ''done'']
   \<and> issued (mcpClient (snd (executeToolCalls examplePlatform flakySdk connectedService threeCalls)))
     = [CallTool ''list_repos'' [], CallTool ''get_issue'' [(''issue_number'', JNum 68)],
        CallTool ''get_issue'' [(''issue_number'', JNum 69)]]"
proof -
  let ?c1 = "\<lparr>toolName_call = ''list_repos'', parameters = [],
               reasoning = ''Listing repositories''\<rparr>"
  let ?c2 = "\<lparr>toolName_call = ''get_issue'', parameters = [(''issue_number'', JNum 68)],
               reasoning = ''Getting issue #68''\<rparr>"
  let ?c3 = "\<lparr>toolName_call = ''get_issue'', parameters = [(''issue_number'', JNum 69)],
               reasoning = ''Getting issue #69''\<rparr>"
  have c: "connected (mcpClient connectedService)"
    by (simp add: connectedService_def)
  have r1: "sdk_callTool flakySdk (toolName_call ?c1) (parameters ?c1)
              (world (mcpClient connectedService)) = (Inr (JStr ''done''), 1)"
    by (simp add: flakySdk_def connectedService_def)
  have r2: "sdk_callTool flakySdk (toolName_call ?c2) (parameters ?c2) 1
              = (Inl (Error ''rate limit exceeded''), 2)"
    by (simp add: flakySdk_def)
  have r3: "sdk_callTool flakySdk (toolName_call ?c3) (parameters ?c3) 2
              = (Inr (JStr ''done''), 3)"
    by (simp add: flakySdk_def)
  have f: "formatToolResult examplePlatform t (JStr ''done'') = Some ''done''" for t
    by (simp add: formatToolResult_def formatToolResult_try_def propOf_def truthy_def typeof_def)
  from batch_with_failing_second_call [OF c r1 r2 r3, of examplePlatform]
  show ?thesis
    by (simp add: threeCalls_def f errorMessage_def connectedService_def)
qed

subsection \<open>Tool catalog\<close>

lemma getAvailableTools_loaded:
  "toolsLoaded svc \<Longrightarrow> getAvailableTools S svc = (availableTools svc, svc)"
  by (simp add: getAvailableTools_def)

lemma getAvailableTools_loaded_repeat:
  "toolsLoaded svc \<Longrightarrow> ((\<lambda>s. snd (getAvailableTools S s)) ^^ n) svc = svc"
  by (induction n) (simp_all add: getAvailableTools_loaded)

text \<open>
  Claim C8. If \<^verbatim>\<open>mcpClient.listTools()\<close> throws during the first load, then
  \<^verbatim>\<open>getAvailableTools\<close> returns the empty list and leaves the service marked as loaded
  with an empty catalog; and after any number of further calls, a call still returns
  the empty list and leaves the service exactly as the first call left it. The state
  includes the log of requests issued to the SDK, so no later call issues one.
\<close>

theorem failed_catalog_load_is_cached:
  assumes "\<not> toolsLoaded svc" and "fst (listTools S (mcpClient svc)) = Inl e"
  shows "fst (getAvailableTools S svc) = []
   \<and> toolsLoaded (snd (getAvailableTools S svc))
   \<and> availableTools (snd (getAvailableTools S svc)) = []
   \<and> (\<forall>n. getAvailableTools S
              (((\<lambda>s. snd (getAvailableTools S s)) ^^ n) (snd (getAvailableTools S svc)))
            = ([], snd (getAvailableTools S svc)))"
proof -
  obtain c where lt: "listTools S (mcpClient svc) = (Inl e, c)"
    using assms(2) by (cases "listTools S (mcpClient svc)") simp
  define svc1 where "svc1 = svc\<lparr>mcpClient := c, availableTools := [], toolsLoaded := True\<rparr>"
  have first: "getAvailableTools S svc = ([], svc1)"
    using assms(1) lt by (simp add: getAvailableTools_def loadAvailableTools_def svc1_def)
  have loaded: "toolsLoaded svc1" and empty: "availableTools svc1 = []"
    by (simp_all add: svc1_def)
  have "getAvailableTools S (((\<lambda>s. snd (getAvailableTools S s)) ^^ n) svc1) = ([], svc1)" for n
    using loaded empty by (simp add: getAvailableTools_loaded_repeat getAvailableTools_loaded)
  with first loaded empty show ?thesis by simp
qed

text \<open>
  A fresh service whose server is down: the first call connects and issues one
  \<^verbatim>\<open>listTools\<close> request, the second call issues nothing.
\<close>

theorem failed_catalog_load_is_cached_witness:
  "getAvailableTools downSdk freshService =
     ([], \<lparr>mcpClient = \<lparr>connected = True, world = 0, issued = [Connect, ListTools]\<rparr>,
           availableTools = [], toolsLoaded = True\<rparr>)
   \<and> getAvailableTools downSdk (snd (getAvailableTools downSdk freshService)) =
     ([], \<lparr>mcpClient = \<lparr>connected = True, world = 0, issued = [Connect, ListTools]\<rparr>,
           availableTools = [], toolsLoaded = True\<rparr>)"
proof -
  have h1: "\<not> toolsLoaded freshService" by (simp add: freshService_def)
  have lt: "listTools downSdk (mcpClient freshService) =
      (Inl (Error ''Failed to list tools: service unavailable''),
       \<lparr>connected = True, world = 0, issued = [Connect, ListTools]\<rparr>)"
    by (simp add: listTools_def ensureConnected_def connect_def downSdk_def freshService_def
          errorMessage_def)
  then have h2: "fst (listTools downSdk (mcpClient freshService))
      = Inl (Error ''Failed to list tools: service unavailable'')"
    by simp
  have first: "getAvailableTools downSdk freshService =
     ([], \<lparr>mcpClient = \<lparr>connected = True, world = 0, issued = [Connect, ListTools]\<rparr>,
           availableTools = [], toolsLoaded = True\<rparr>)"
    using lt by (simp add: getAvailableTools_def loadAvailableTools_def freshService_def)
  from failed_catalog_load_is_cached [OF h1 h2]
  have "getAvailableTools downSdk
          (((\<lambda>s. snd (getAvailableTools downSdk s)) ^^ 0) (snd (getAvailableTools downSdk freshService)))
        = ([], snd (getAvailableTools downSdk freshService))"
    by blast
  with first show ?thesis by simp
qed

subsection \<open>Overlapping catalog loads\<close>

text \<open>
  A call made alone on a connected service is the schedule of its events, one when
  the tools are loaded and four when they are not: the schedule ends in the state and
  with the result that \<open>getAvailableTools\<close> gives.
\<close>

lemma sequential_call_as_schedule:
  assumes "connected (mcpClient svc)"
  shows "run (if toolsLoaded svc then [Call t]
              else [Call t, Resume t, ListSettled t (fst (sdk_listTools S ())), Resume t])
           \<lparr>service = svc, phases = (\<lambda>t. Idle)\<rparr>
         = \<lparr>service = snd (getAvailableTools S svc),
            phases = (\<lambda>t. Idle)(t := Returned (fst (getAvailableTools S svc)))\<rparr>"
proof (cases "toolsLoaded svc")
  case True
  then show ?thesis by (simp add: run_def getAvailableTools_def)
next
  case False
  obtain r w where r: "sdk_listTools S () = (r, w)" by (cases "sdk_listTools S ()")
  have lt: "listTools S (mcpClient svc) =
      ((case r of Inr x \<Rightarrow> Inr x
               | Inl e \<Rightarrow> Inl (Error (''Failed to list tools: '' @ errorMessage e))),
       (mcpClient svc)\<lparr>issued := issued (mcpClient svc) @ [ListTools]\<rparr>)"
    using assms r by (cases r) (simp_all add: listTools_def ensureConnected_def)
  show ?thesis
    using False assms r lt
    by (cases r)
       (auto simp: run_def getAvailableTools_def loadAvailableTools_def Let_def
          finishLoad_def loadedTools_def issue_def split: option.splits)
qed

text \<open>
  The same for a call made alone on a service that is neither connected nor loaded:
  its schedule goes through the SDK's \<^verbatim>\<open>connect\<close>, and stops there when that is rejected.
\<close>

lemma sequential_first_call_as_schedule:
  assumes "\<not> connected (mcpClient svc)" and "\<not> toolsLoaded svc"
  shows "run (case fst (sdk_connect S ()) of
                Inr u \<Rightarrow> [Call t, ConnectSettled t (Inr u), Resume t,
                          ListSettled t (fst (sdk_listTools S ())), Resume t]
              | Inl e \<Rightarrow> [Call t, ConnectSettled t (Inl e), Resume t])
           \<lparr>service = svc, phases = (\<lambda>t. Idle)\<rparr>
         = \<lparr>service = snd (getAvailableTools S svc),
            phases = (\<lambda>t. Idle)(t := Returned (fst (getAvailableTools S svc)))\<rparr>"
proof -
  obtain rc wc where rc: "sdk_connect S () = (rc, wc)" by (cases "sdk_connect S ()")
  obtain r w where r: "sdk_listTools S () = (r, w)" by (cases "sdk_listTools S ()")
  show ?thesis
  proof (cases rc)
    case (Inl e)
    have lt: "listTools S (mcpClient svc) =
        (Inl (Error (''Failed to list tools: '' @ errorMessage
                (Error (''Failed to connect to GitHub MCP server: '' @ errorMessage e)))),
         (mcpClient svc)\<lparr>issued := issued (mcpClient svc) @ [Connect]\<rparr>)"
      using assms rc Inl by (simp add: listTools_def ensureConnected_def connect_def)
    show ?thesis
      using assms rc Inl lt
      by (simp add: run_def getAvailableTools_def loadAvailableTools_def Let_def
            finishLoad_def loadedTools_def issue_def)
  next
    case (Inr u)
    have lt: "listTools S (mcpClient svc) =
        ((case r of Inr x \<Rightarrow> Inr x
                 | Inl e \<Rightarrow> Inl (Error (''Failed to list tools: '' @ errorMessage e))),
         (mcpClient svc)\<lparr>connected := True,
            issued := issued (mcpClient svc) @ [Connect, ListTools]\<rparr>)"
      using assms rc r Inr by (cases r) (simp_all add: listTools_def ensureConnected_def connect_def)
    show ?thesis
      using assms rc r Inr lt
      by (cases r)
         (auto simp: run_def getAvailableTools_def loadAvailableTools_def Let_def
            finishLoad_def loadedTools_def issue_def setConnected_def split: option.splits)
  qed
qed

text \<open>Events of other tasks leave the phase of a task as it is.\<close>

lemma run_Nil: "run [] s = s"
  by (simp add: run_def)

lemma run_Cons: "run (ev # evs) s = run evs (step ev s)"
  by (simp add: run_def)

lemma step_other_phase: "taskOf ev \<noteq> t \<Longrightarrow> phases (step ev s) t = phases s t"
  by (cases ev) (auto simp: taskOf_def split: sum.splits)

lemma run_others_phase: "ofOthers t evs \<Longrightarrow> phases (run evs s) t = phases s t"
proof (induction evs arbitrary: s)
  case Nil
  then show ?case by (simp add: run_Nil)
next
  case (Cons ev evs)
  then show ?case by (simp add: run_Cons ofOthers_def step_other_phase)
qed

lemma resume_issues_listTools:
  "phases s t = AwaitEnsure \<Longrightarrow> listToolsIssued (step (Resume t) s) = listToolsIssued s + 1"
  by (simp add: listToolsIssued_def issue_def)

lemma issued_finishLoad: "issued (mcpClient (finishLoad r svc)) = issued (mcpClient svc)"
  by (simp add: finishLoad_def)

text \<open>
  Claim C9, as amended. The code keeps no pending load to share; each call of
  \<^verbatim>\<open>getAvailableTools\<close> goes its own way, whatever the events \<open>evs\<close>, \<open>evs'\<close> of the other
  calls in between:
  \<^item> a call made when the tools are loaded issues no request and returns the cached
    list at once;
  \<^item> a call made when the tools are not loaded, on a connected service, issues a
    \<^verbatim>\<open>listTools\<close> request of its own when it is resumed;
  \<^item> a call made when the tools are not loaded, on a service that is not connected,
    issues a \<^verbatim>\<open>connect\<close> request of its own and, once that has resolved and the call is
    resumed, a \<^verbatim>\<open>listTools\<close> request of its own;
  \<^item> when the \<^verbatim>\<open>connect\<close> of a call is rejected, the call stores the empty list, sets the
    flag and issues no request;
  \<^item> when the \<^verbatim>\<open>listTools\<close> of a call settles, the call stores the tools of that
    response, sets the flag and issues no request;
  \<^item> a call that has stored its tools returns, when it is resumed, the list that the
    service holds at that moment, which another call may have stored since.
\<close>

theorem overlapping_calls_each_issue_listTools:
  "(phases s t = Idle \<and> toolsLoaded (service s) \<longrightarrow>
      step (Call t) s = s\<lparr>phases := (phases s)(t := Returned (availableTools (service s)))\<rparr>)
   \<and> (phases s t = Idle \<and> \<not> toolsLoaded (service s) \<and> connected (mcpClient (service s))
       \<and> ofOthers t evs \<longrightarrow>
        step (Call t) s = s\<lparr>phases := (phases s)(t := AwaitEnsure)\<rparr>
        \<and> listToolsIssued (step (Resume t) (run evs (step (Call t) s)))
            = listToolsIssued (run evs (step (Call t) s)) + 1)
   \<and> (phases s t = Idle \<and> \<not> toolsLoaded (service s) \<and> \<not> connected (mcpClient (service s))
       \<and> ofOthers t evs \<and> ofOthers t evs' \<longrightarrow>
        issued (mcpClient (service (step (Call t) s)))
          = issued (mcpClient (service s)) @ [Connect]
        \<and> listToolsIssued
             (step (Resume t)
               (run evs' (step (ConnectSettled t (Inr ())) (run evs (step (Call t) s)))))
            = listToolsIssued
                (run evs' (step (ConnectSettled t (Inr ())) (run evs (step (Call t) s)))) + 1)
   \<and> (phases s t = AwaitConnect \<longrightarrow>
        toolsLoaded (service (step (ConnectSettled t (Inl e)) s))
        \<and> availableTools (service (step (ConnectSettled t (Inl e)) s)) = []
        \<and> phases (step (ConnectSettled t (Inl e)) s) t = AwaitLoad
        \<and> issued (mcpClient (service (step (ConnectSettled t (Inl e)) s)))
            = issued (mcpClient (service s)))
   \<and> (phases s t = AwaitList \<longrightarrow>
        toolsLoaded (service (step (ListSettled t r) s))
        \<and> availableTools (service (step (ListSettled t r) s)) = loadedTools r
        \<and> phases (step (ListSettled t r) s) t = AwaitLoad
        \<and> issued (mcpClient (service (step (ListSettled t r) s)))
            = issued (mcpClient (service s)))
   \<and> (phases s t = AwaitLoad \<longrightarrow>
        step (Resume t) s = s\<lparr>phases := (phases s)(t := Returned (availableTools (service s)))\<rparr>)"
proof (intro conjI impI)
  assume "phases s t = Idle \<and> toolsLoaded (service s)"
  then show "step (Call t) s = s\<lparr>phases := (phases s)(t := Returned (availableTools (service s)))\<rparr>"
    by simp
next
  assume h: "phases s t = Idle \<and> \<not> toolsLoaded (service s) \<and> connected (mcpClient (service s))
       \<and> ofOthers t evs"
  then show c: "step (Call t) s = s\<lparr>phases := (phases s)(t := AwaitEnsure)\<rparr>"
    by simp
  from h have "phases (run evs (step (Call t) s)) t = AwaitEnsure"
    by (simp add: run_others_phase)
  then show "listToolsIssued (step (Resume t) (run evs (step (Call t) s)))
            = listToolsIssued (run evs (step (Call t) s)) + 1"
    by (rule resume_issues_listTools)
next
  assume h: "phases s t = Idle \<and> \<not> toolsLoaded (service s) \<and> \<not> connected (mcpClient (service s))
       \<and> ofOthers t evs \<and> ofOthers t evs'"
  then show "issued (mcpClient (service (step (Call t) s)))
          = issued (mcpClient (service s)) @ [Connect]"
    by (simp add: issue_def)
  from h have "phases (step (Call t) s) t = AwaitConnect" by simp
  with h have "phases (run evs (step (Call t) s)) t = AwaitConnect"
    by (simp add: run_others_phase)
  then have "phases (step (ConnectSettled t (Inr ())) (run evs (step (Call t) s))) t = AwaitEnsure"
    by simp
  with h have "phases (run evs' (step (ConnectSettled t (Inr ())) (run evs (step (Call t) s)))) t
                 = AwaitEnsure"
    by (simp add: run_others_phase)
  then show "listToolsIssued
             (step (Resume t)
               (run evs' (step (ConnectSettled t (Inr ())) (run evs (step (Call t) s)))))
            = listToolsIssued
                (run evs' (step (ConnectSettled t (Inr ())) (run evs (step (Call t) s)))) + 1"
    by (rule resume_issues_listTools)
next
  assume h: "phases s t = AwaitConnect"
  then show "toolsLoaded (service (step (ConnectSettled t (Inl e)) s))"
    by (simp add: finishLoad_def)
  from h show "availableTools (service (step (ConnectSettled t (Inl e)) s)) = []"
    by (simp add: finishLoad_def loadedTools_def)
  from h show "phases (step (ConnectSettled t (Inl e)) s) t = AwaitLoad" by simp
  from h show "issued (mcpClient (service (step (ConnectSettled t (Inl e)) s)))
            = issued (mcpClient (service s))"
    by (simp add: issued_finishLoad)
next
  assume h: "phases s t = AwaitList"
  then show "toolsLoaded (service (step (ListSettled t r) s))"
    by (simp add: finishLoad_def)
  from h show "availableTools (service (step (ListSettled t r) s)) = loadedTools r"
    by (simp add: finishLoad_def)
  from h show "phases (step (ListSettled t r) s) t = AwaitLoad" by simp
  from h show "issued (mcpClient (service (step (ListSettled t r) s)))
            = issued (mcpClient (service s))"
    by (simp add: issued_finishLoad)
next
  assume "phases s t = AwaitLoad"
  then show "step (Resume t) s = s\<lparr>phases := (phases s)(t := Returned (availableTools (service s)))\<rparr>"
    by simp
qed

text \<open>
  The claim as stated fails: on a connected service that has never loaded its tools,
  two calls made one after the other and then resumed, before any response arrives,
  are both waiting for the SDK's \<^verbatim>\<open>listTools\<close>, and two requests have been issued.
\<close>

theorem overlapping_calls_each_issue_listTools_counterexample:
  "phases (run [Call 0, Call 1, Resume 0, Resume 1] neverLoaded) 0 = AwaitList
   \<and> phases (run [Call 0, Call 1, Resume 0, Resume 1] neverLoaded) 1 = AwaitList
   \<and> issued (mcpClient (service (run [Call 0, Call 1, Resume 0, Resume 1] neverLoaded)))
       = [ListTools, ListTools]
   \<and> listToolsIssued (run [Call 0, Call 1, Resume 0, Resume 1] neverLoaded) = 2"
  by (simp add: run_def neverLoaded_def issue_def listToolsIssued_def)

text \<open>
  The parts of the amended claim on closed schedules. On the connected service
  \<open>neverLoaded\<close>, two overlapping calls issue two requests; when both responses
  arrive before either call is resumed, both calls return the tools of the second
  response; a third call made afterwards returns the same list and issues no
  request. On the service \<open>freshTasks\<close>, which is not connected, the first call issues
  its \<^verbatim>\<open>listTools\<close> request after its own \<^verbatim>\<open>connect\<close> has resolved, while the second call,
  whose \<^verbatim>\<open>connect\<close> is rejected, stores the empty list.
\<close>

theorem overlapping_calls_each_issue_listTools_witness:
  "listToolsIssued (run [Call 0, Call 1, Resume 0, Resume 1] neverLoaded) = 2
   \<and> phases (run [Call 0, Call 1, Resume 0, Resume 1,
                   ListSettled 0 (Inr (Some [oneTool])), ListSettled 1 (Inr (Some [otherTool])),
                   Resume 0, Resume 1] neverLoaded) 0
       = Returned [toGitHubTool otherTool]
   \<and> phases (run [Call 0, Call 1, Resume 0, Resume 1,
                   ListSettled 0 (Inr (Some [oneTool])), ListSettled 1 (Inr (Some [otherTool])),
                   Resume 0, Resume 1] neverLoaded) 1
       = Returned [toGitHubTool otherTool]
   \<and> phases (run [Call 0, Call 1, Resume 0, Resume 1,
                   ListSettled 0 (Inr (Some [oneTool])), ListSettled 1 (Inr (Some [otherTool])),
                   Resume 0, Resume 1, Call 2] neverLoaded) 2
       = Returned [toGitHubTool otherTool]
   \<and> listToolsIssued (run [Call 0, Call 1, Resume 0, Resume 1,
                   ListSettled 0 (Inr (Some [oneTool])), ListSettled 1 (Inr (Some [otherTool])),
                   Resume 0, Resume 1, Call 2] neverLoaded) = 2
   \<and> listToolsIssued (run [Call 0, Call 1, ConnectSettled 0 (Inr ()),
                   ConnectSettled 1 (Inl (Error ''already started'')), Resume 0] freshTasks) = 1
   \<and> phases (run [Call 0, Call 1, ConnectSettled 0 (Inr ()),
                   ConnectSettled 1 (Inl (Error ''already started''))] freshTasks) 1 = AwaitLoad
   \<and> availableTools (service (run [Call 0, Call 1, ConnectSettled 0 (Inr ()),
                   ConnectSettled 1 (Inl (Error ''already started''))] freshTasks)) = []"
proof -
  note T = overlapping_calls_each_issue_listTools
  define A :: "thrown + rawTool list option" where "A = Inr (Some [oneTool])"
  define B :: "thrown + rawTool list option" where "B = Inr (Some [otherTool])"
  define s1 where "s1 = step (Call 0) neverLoaded"
  define s2 where "s2 = step (Call 1) s1"
  define s3 where "s3 = step (Resume 0) s2"
  define s4 where "s4 = step (Resume 1) s3"
  define s5 where "s5 = step (ListSettled 0 A) s4"
  define s6 where "s6 = step (ListSettled 1 B) s5"
  define s7 where "s7 = step (Resume 0) s6"
  define s8 where "s8 = step (Resume 1) s7"
  define s9 where "s9 = step (Call 2) s8"
  note folds = s1_def [symmetric] s2_def [symmetric] s3_def [symmetric] s4_def [symmetric]
    s5_def [symmetric] s6_def [symmetric] s7_def [symmetric] s8_def [symmetric]
    s9_def [symmetric]
  \<comment> \<open>two overlapping calls on a connected service: each issues its request\<close>
  have h0: "phases neverLoaded 0 = Idle \<and> \<not> toolsLoaded (service neverLoaded)
            \<and> connected (mcpClient (service neverLoaded)) \<and> ofOthers 0 [Call 1]"
    by (simp add: neverLoaded_def ofOthers_def taskOf_def)
  have n2: "listToolsIssued s2 = 0"
    by (simp add: s2_def s1_def neverLoaded_def listToolsIssued_def)
  have "listToolsIssued (step (Resume 0) (run [Call 1] (step (Call 0) neverLoaded)))
        = listToolsIssued (run [Call 1] (step (Call 0) neverLoaded)) + 1"
    by (rule T [where s = neverLoaded and t = 0 and evs = "[Call 1]",
             THEN conjunct2, THEN conjunct1, THEN mp, OF h0, THEN conjunct2])
  then have n3: "listToolsIssued s3 = 1"
    unfolding run_Cons run_Nil folds n2 by simp
  have h1: "phases s1 1 = Idle \<and> \<not> toolsLoaded (service s1)
            \<and> connected (mcpClient (service s1)) \<and> ofOthers 1 [Resume 0]"
    by (simp add: s1_def neverLoaded_def ofOthers_def taskOf_def)
  have "listToolsIssued (step (Resume 1) (run [Resume 0] (step (Call 1) s1)))
        = listToolsIssued (run [Resume 0] (step (Call 1) s1)) + 1"
    by (rule T [where s = s1 and t = 1 and evs = "[Resume 0]",
             THEN conjunct2, THEN conjunct1, THEN mp, OF h1, THEN conjunct2])
  then have n4: "listToolsIssued s4 = 2"
    unfolding run_Cons run_Nil folds n3 by simp
  \<comment> \<open>both loads settle before either call is resumed\<close>
  have p4: "phases s4 0 = AwaitList" "phases s4 1 = AwaitList" "phases s4 2 = Idle"
    by (simp_all add: s4_def s3_def s2_def s1_def neverLoaded_def)
  have c5: "toolsLoaded (service s5) \<and> availableTools (service s5) = loadedTools A
            \<and> phases s5 0 = AwaitLoad
            \<and> issued (mcpClient (service s5)) = issued (mcpClient (service s4))"
    unfolding s5_def
    by (rule T [where s = s4 and t = 0 and r = A,
             THEN conjunct2, THEN conjunct2, THEN conjunct2, THEN conjunct2, THEN conjunct1,
             THEN mp, OF p4(1)])
  have p5: "phases s5 1 = AwaitList" "phases s5 2 = Idle"
    unfolding s5_def using p4 by (simp_all add: step_other_phase taskOf_def)
  have c6: "toolsLoaded (service s6) \<and> availableTools (service s6) = loadedTools B
            \<and> phases s6 1 = AwaitLoad
            \<and> issued (mcpClient (service s6)) = issued (mcpClient (service s5))"
    unfolding s6_def
    by (rule T [where s = s5 and t = 1 and r = B,
             THEN conjunct2, THEN conjunct2, THEN conjunct2, THEN conjunct2, THEN conjunct1,
             THEN mp, OF p5(1)])
  have p6: "phases s6 0 = AwaitLoad" "phases s6 2 = Idle"
    unfolding s6_def using c5 p5 by (simp_all add: step_other_phase taskOf_def)
  have e7: "s7 = s6\<lparr>phases := (phases s6)(0 := Returned (availableTools (service s6)))\<rparr>"
    unfolding s7_def
    by (rule T [where s = s6 and t = 0,
             THEN conjunct2, THEN conjunct2, THEN conjunct2, THEN conjunct2, THEN conjunct2,
             THEN mp, OF p6(1)])
  have p7: "phases s7 1 = AwaitLoad"
    unfolding e7 using c6 by simp
  have e8: "s8 = s7\<lparr>phases := (phases s7)(1 := Returned (availableTools (service s7)))\<rparr>"
    unfolding s8_def
    by (rule T [where s = s7 and t = 1,
             THEN conjunct2, THEN conjunct2, THEN conjunct2, THEN conjunct2, THEN conjunct2,
             THEN mp, OF p7])
  have av: "loadedTools B = [toGitHubTool otherTool]"
    by (simp add: loadedTools_def B_def)
  have sv8: "service s8 = service s6"
    unfolding e8 e7 by simp
  have w2: "phases s8 0 = Returned [toGitHubTool otherTool]"
    and w3: "phases s8 1 = Returned [toGitHubTool otherTool]"
    unfolding e8 e7 using c6 av by simp_all
  \<comment> \<open>a call made after the loads\<close>
  have h8: "phases s8 2 = Idle \<and> toolsLoaded (service s8)"
    unfolding e8 e7 using c6 p6 by simp
  have e9: "s9 = s8\<lparr>phases := (phases s8)(2 := Returned (availableTools (service s8)))\<rparr>"
    unfolding s9_def
    by (rule T [where s = s8 and t = 2, THEN conjunct1, THEN mp, OF h8])
  have w4: "phases s9 2 = Returned [toGitHubTool otherTool]"
    unfolding e9 sv8 using c6 av by simp
  have "issued (mcpClient (service s9)) = issued (mcpClient (service s4))"
    unfolding e9 using sv8 c6 c5 by simp
  then have w5: "listToolsIssued s9 = 2"
    using n4 by (simp add: listToolsIssued_def)
  \<comment> \<open>a service that is not connected, the second connect being rejected\<close>
  define f1 where "f1 = step (Call 0) freshTasks"
  define f2 where "f2 = step (Call 1) f1"
  define f3 where "f3 = step (ConnectSettled 0 (Inr ())) f2"
  define f4 where "f4 = step (ConnectSettled 1 (Inl (Error ''already started''))) f3"
  define f5 where "f5 = step (Resume 0) f4"
  note ffolds = f1_def [symmetric] f2_def [symmetric] f3_def [symmetric] f4_def [symmetric]
    f5_def [symmetric]
  have g0: "phases freshTasks 0 = Idle \<and> \<not> toolsLoaded (service freshTasks)
            \<and> \<not> connected (mcpClient (service freshTasks)) \<and> ofOthers 0 [Call 1]
            \<and> ofOthers 0 [ConnectSettled 1 (Inl (Error ''already started''))]"
    by (simp add: freshTasks_def ofOthers_def taskOf_def)
  have "listToolsIssued (step (Resume 0)
           (run [ConnectSettled 1 (Inl (Error ''already started''))]
              (step (ConnectSettled 0 (Inr ())) (run [Call 1] (step (Call 0) freshTasks)))))
        = listToolsIssued
           (run [ConnectSettled 1 (Inl (Error ''already started''))]
              (step (ConnectSettled 0 (Inr ())) (run [Call 1] (step (Call 0) freshTasks)))) + 1"
    by (rule T [where s = freshTasks and t = 0 and evs = "[Call 1]"
               and evs' = "[ConnectSettled 1 (Inl (Error ''already started''))]",
             THEN conjunct2, THEN conjunct2, THEN conjunct1, THEN mp, OF g0, THEN conjunct2])
  then have m5: "listToolsIssued f5 = listToolsIssued f4 + 1"
    unfolding run_Cons run_Nil ffolds .
  have q3: "phases f3 1 = AwaitConnect"
    by (simp add: f3_def f2_def f1_def freshTasks_def issue_def)
  have c4: "toolsLoaded (service f4) \<and> availableTools (service f4) = []
            \<and> phases f4 1 = AwaitLoad
            \<and> issued (mcpClient (service f4)) = issued (mcpClient (service f3))"
    unfolding f4_def
    by (rule T [where s = f3 and t = 1 and e = "Error ''already started''",
             THEN conjunct2, THEN conjunct2, THEN conjunct2, THEN conjunct1, THEN mp, OF q3])
  have m3: "listToolsIssued f3 = 0"
    by (simp add: f3_def f2_def f1_def freshTasks_def listToolsIssued_def issue_def
          setConnected_def)
  have m4: "listToolsIssued f4 = 0"
    using c4 m3 by (simp add: listToolsIssued_def)
  have w6: "listToolsIssued f5 = 1"
    unfolding m5 m4 by simp
  have r4: "run [Call 0, Call 1, Resume 0, Resume 1] neverLoaded = s4"
    unfolding run_Cons run_Nil folds ..
  have r8: "run [Call 0, Call 1, Resume 0, Resume 1,
                   ListSettled 0 (Inr (Some [oneTool])), ListSettled 1 (Inr (Some [otherTool])),
                   Resume 0, Resume 1] neverLoaded = s8"
    unfolding run_Cons run_Nil A_def [symmetric] B_def [symmetric] folds ..
  have r9: "run [Call 0, Call 1, Resume 0, Resume 1,
                   ListSettled 0 (Inr (Some [oneTool])), ListSettled 1 (Inr (Some [otherTool])),
                   Resume 0, Resume 1, Call 2] neverLoaded = s9"
    unfolding run_Cons run_Nil A_def [symmetric] B_def [symmetric] folds ..
  have t5: "run [Call 0, Call 1, ConnectSettled 0 (Inr ()),
                   ConnectSettled 1 (Inl (Error ''already started'')), Resume 0] freshTasks = f5"
    unfolding run_Cons run_Nil ffolds ..
  have t4: "run [Call 0, Call 1, ConnectSettled 0 (Inr ()),
                   ConnectSettled 1 (Inl (Error ''already started''))] freshTasks = f4"
    unfolding run_Cons run_Nil ffolds ..
  show ?thesis
    unfolding r4 r8 r9 t5 t4 using n4 w2 w3 w4 w5 w6 c4 by simp
qed

end
